theory Spec2Isabelle
  imports Main "HOL-Library.Word" "HOL-Library.Multiset"
begin

unbundle bit_operations_syntax

section \<open>IOC mediator (hw/platform/ioc.c)\<close>

text \<open>
  The development follows \<^verbatim>\<open>hw/platform/ioc.c\<close>: the channel table with its
  read and write wrappers, the three request queues over the fixed pool, the construction
  of requests by the core thread, the routing done by the rx and tx threads, and the
  start-up path (\<^verbatim>\<open>ioc_parse\<close>, \<open>ioc_init\<close>, \<open>ioc_ch_init\<close>).

  System calls are not part of the program. Each is an oracle whose reply is an argument
  of the model, so that every theorem holds for every behaviour of the kernel.
\<close>

subsection \<open>Channel table\<close>

type_synonym uint8 = "8 word"
type_synonym uint32 = "32 word"

datatype errno = EAGAIN | EINTR | EIO | EBADF | ENOENT | EACCES

text \<open>
  The device paths of the table are macros of \<^verbatim>\<open>ioc.h\<close>; they are kept as the
  names of the macros.
\<close>

datatype dev_path =
    IOC_NP_PMT | IOC_NP_LF | IOC_NP_SIG | IOC_NP_ESIG | IOC_NP_DIAG | IOC_NP_DLT
  | IOC_NP_LIND | IOC_NP_RAW0 | IOC_NP_RAW1 | IOC_NP_RAW2 | IOC_NP_RAW3 | IOC_NP_RAW4
  | IOC_NP_RAW5 | IOC_NP_RAW6 | IOC_NP_RAW7 | IOC_NP_RAW8 | IOC_NP_RAW9 | IOC_NP_RAW10
  | IOC_NP_RAW11 | IOC_DP_NONE

datatype ioc_ch_stat = IOC_CH_OFF | IOC_CH_ON

record ioc_ch_info =
  fd :: int
  name :: dev_path
  ch_id :: nat
  stat :: ioc_ch_stat

subsection \<open>Writing to a channel: \<open>ioc_ch_xmit\<close>\<close>

text \<open>
  What \<^verbatim>\<open>write(fd, p, len)\<close> can answer: a failure, which the caller sees as
  \<open>-1\<close> with \<open>errno\<close> set, or the number of bytes the kernel took, which is never
  more than \<open>len\<close>.
\<close>

datatype write_reply = WErr errno | WOk nat

definition write_rc :: "write_reply \<Rightarrow> nat \<Rightarrow> int" where
  "write_rc r len = (case r of WErr e \<Rightarrow> - 1 | WOk n \<Rightarrow> int (min n len))"

text \<open>
  The \<^verbatim>\<open>while (count < size)\<close> loop. \<open>wr k\<close> is the reply to the \<open>k\<close>-th call of
  \<^verbatim>\<open>write\<close>. The loop has no bound of its own (a kernel that keeps taking zero
  bytes keeps it running), so it is a partial function: \<open>None\<close> is "does not return".
\<close>

partial_function (option) xmit_loop ::
  "(nat \<Rightarrow> write_reply) \<Rightarrow> nat \<Rightarrow> int \<Rightarrow> nat \<Rightarrow> int option" where
  "xmit_loop wr k cnt sz =
     (if cnt < int sz then
        (if write_rc (wr k) (nat (int sz - cnt)) < 0 then Some cnt
         else xmit_loop wr (Suc k) (cnt + write_rc (wr k) (nat (int sz - cnt))) sz)
      else Some cnt)"

text \<open>
  \<open>bufp\<close> is the source's \<open>buf\<close>, \<open>None\<close> for a null pointer. \<open>sz\<close> is the
  \<^verbatim>\<open>size_t size\<close>. \<open>cnt\<close> (the source's \<open>count\<close>) and the result are C
  \<^verbatim>\<open>int\<close>s; they stay within \<open>0..sz\<close>, because no write takes more than it was
  offered, so for \<open>sz\<close> up to \<^verbatim>\<open>INT_MAX\<close> nothing wraps around.
\<close>

definition ioc_ch_xmit ::
  "ioc_ch_info list \<Rightarrow> (nat \<Rightarrow> write_reply) \<Rightarrow> nat \<Rightarrow> uint8 list option \<Rightarrow> nat \<Rightarrow> int option" where
  "ioc_ch_xmit tbl wr i bufp sz =
     (if fd (tbl ! i) < 0 \<or> bufp = None \<or> sz = 0 then Some (- 1)
      else xmit_loop wr 0 0 sz)"

text \<open>The value of the counter after the first \<open>k\<close> writes, none of which failed.\<close>

primrec written :: "(nat \<Rightarrow> write_reply) \<Rightarrow> nat \<Rightarrow> nat \<Rightarrow> nat" where
  "written wr sz 0 = 0"
| "written wr sz (Suc k) = written wr sz k + nat (write_rc (wr k) (sz - written wr sz k))"

text \<open>A kernel that reports would-block once and then takes everything.\<close>

definition eagain_then_ok :: "nat \<Rightarrow> write_reply" where
  "eagain_then_ok k = (if k = 0 then WErr EAGAIN else WOk 3)"

text \<open>The same kernel with a short write of no bytes in place of the would-block.\<close>

definition zero_then_ok :: "nat \<Rightarrow> write_reply" where
  "zero_then_ok k = (if k = 0 then WOk 0 else WOk 3)"

definition short_then_eagain :: "nat \<Rightarrow> write_reply" where
  "short_then_eagain k = (if k = 0 then WOk 2 else WErr EAGAIN)"

definition one_open_channel :: "ioc_ch_info list" where
  "one_open_channel = [\<lparr>fd = 5, name = IOC_NP_LF, ch_id = 0, stat = IOC_CH_ON\<rparr>]"

subsection \<open>Requests, queues and the device record\<close>

datatype cbc_queue_type = CBC_QUEUE_T_RX | CBC_QUEUE_T_TX | CBC_QUEUE_T_FREE

text \<open>
  Modelled from the spec: \<^verbatim>\<open>enum cbc_request_type\<close> is declared in
  \<^verbatim>\<open>ioc.h\<close>; the spec names two request kinds, framed-protocol and raw.
\<close>

datatype cbc_request_type = CBC_REQ_T_PROT | CBC_REQ_T_RAW

record cbc_request =
  srv_len :: int
  link_len :: int
  req_id :: nat
  rtype :: cbc_request_type
  buf :: "uint8 list"

record cbc_ring =
  head :: uint32
  tail :: uint32
  ring_buf :: "uint8 list"

datatype ioc_mutex = free_mtx | rx_mtx | tx_mtx

datatype ioc_cond = rx_cond | tx_cond

text \<open>
  What the program does besides changing its data is recorded in the order it happens:
  mutex and condition-variable calls, and the lines printed by \<^verbatim>\<open>WPRINTF\<close>.
  \<^verbatim>\<open>DPRINTF\<close> prints only when \<^verbatim>\<open>ioc_debug\<close> is set; the file declares
  \<^verbatim>\<open>static int ioc_debug\<close> and never assigns it, so these lines are never printed
  and are left out.
\<close>

datatype ioc_event =
    Lock ioc_mutex | Unlock ioc_mutex | Signal ioc_cond | Wprintf string

text \<open>
  A \<^verbatim>\<open>struct cbc_request *\<close> is the index of the request in \<open>pool\<close>
  (\<^verbatim>\<open>ioc->pool + i\<close>); \<open>None\<close> is the null pointer. A \<^verbatim>\<open>SIMPLEQ\<close> is the list
  of its elements from the head.
\<close>

record ioc_dev =
  pool :: "cbc_request list"
  free_qhead :: "nat list"
  rx_qhead :: "nat list"
  tx_qhead :: "nat list"
  ring :: cbc_ring
  closing :: bool
  trace :: "ioc_event list"

definition emit :: "ioc_event \<Rightarrow> ioc_dev \<Rightarrow> ioc_dev" where
  "emit e ioc = ioc\<lparr>trace := trace ioc @ [e]\<rparr>"

definition SIMPLEQ_INSERT_HEAD :: "nat list \<Rightarrow> nat \<Rightarrow> nat list" where
  "SIMPLEQ_INSERT_HEAD q r = r # q"

definition SIMPLEQ_INSERT_TAIL :: "nat list \<Rightarrow> nat \<Rightarrow> nat list" where
  "SIMPLEQ_INSERT_TAIL q r = q @ [r]"

definition SIMPLEQ_EMPTY :: "nat list \<Rightarrow> bool" where
  "SIMPLEQ_EMPTY q = (q = [])"

definition SIMPLEQ_FIRST :: "nat list \<Rightarrow> nat option" where
  "SIMPLEQ_FIRST q = (case q of [] \<Rightarrow> None | r # _ \<Rightarrow> Some r)"

definition SIMPLEQ_REMOVE_HEAD :: "nat list \<Rightarrow> nat list" where
  "SIMPLEQ_REMOVE_HEAD q = tl q"

text \<open>\<^verbatim>\<open>qhead = &ioc->rx_qhead\<close> and so on: the queue a \<open>qtype\<close> selects.\<close>

definition qhead_get :: "cbc_queue_type \<Rightarrow> ioc_dev \<Rightarrow> nat list" where
  "qhead_get qtype ioc =
     (if qtype = CBC_QUEUE_T_RX then rx_qhead ioc
      else if qtype = CBC_QUEUE_T_TX then tx_qhead ioc
      else free_qhead ioc)"

definition qhead_set :: "cbc_queue_type \<Rightarrow> nat list \<Rightarrow> ioc_dev \<Rightarrow> ioc_dev" where
  "qhead_set qtype q ioc =
     (if qtype = CBC_QUEUE_T_RX then ioc\<lparr>rx_qhead := q\<rparr>
      else if qtype = CBC_QUEUE_T_TX then ioc\<lparr>tx_qhead := q\<rparr>
      else ioc\<lparr>free_qhead := q\<rparr>)"

definition cbc_request_enqueue ::
  "ioc_dev \<Rightarrow> nat option \<Rightarrow> cbc_queue_type \<Rightarrow> bool \<Rightarrow> ioc_dev" where
  "cbc_request_enqueue ioc req qtype to_head =
     (case req of
        None \<Rightarrow> ioc
      | Some r \<Rightarrow>
          (let cond = (if qtype = CBC_QUEUE_T_RX then Some rx_cond
                       else if qtype = CBC_QUEUE_T_TX then Some tx_cond
                       else None);
               mtx = (if qtype = CBC_QUEUE_T_RX then rx_mtx
                      else if qtype = CBC_QUEUE_T_TX then tx_mtx
                      else free_mtx);
               ioc1 = emit (Lock mtx) ioc;
               ioc2 = (if to_head
                       then qhead_set qtype (SIMPLEQ_INSERT_HEAD (qhead_get qtype ioc1) r) ioc1
                       else qhead_set qtype (SIMPLEQ_INSERT_TAIL (qhead_get qtype ioc1) r) ioc1);
               ioc3 = (case cond of None \<Rightarrow> ioc2 | Some c \<Rightarrow> emit (Signal c) ioc2)
           in emit (Unlock mtx) ioc3))"

definition cbc_request_dequeue ::
  "ioc_dev \<Rightarrow> cbc_queue_type \<Rightarrow> nat option \<times> ioc_dev" where
  "cbc_request_dequeue ioc qtype =
     (if qtype = CBC_QUEUE_T_FREE then
        (let ioc1 = emit (Lock free_mtx) ioc;
             (free, ioc2) =
               (if \<not> SIMPLEQ_EMPTY (free_qhead ioc1)
                then (SIMPLEQ_FIRST (free_qhead ioc1),
                      ioc1\<lparr>free_qhead := SIMPLEQ_REMOVE_HEAD (free_qhead ioc1)\<rparr>)
                else (None, ioc1))
         in (free, emit (Unlock free_mtx) ioc2))
      else (None, ioc))"

text \<open>A device with two requests on the free queue, one on rx and one on tx.\<close>

definition zero_request :: cbc_request where
  "zero_request = \<lparr>srv_len = 0, link_len = 0, req_id = 0, rtype = CBC_REQ_T_PROT,
     buf = replicate 8 0\<rparr>"

definition sample_dev :: ioc_dev where
  "sample_dev = \<lparr>pool = replicate 4 zero_request, free_qhead = [2, 3], rx_qhead = [0],
     tx_qhead = [1], ring = \<lparr>head = 6, tail = 1, ring_buf = [10, 11, 12, 13, 14, 15, 16, 17]\<rparr>,
     closing = False, trace = []\<rparr>"

subsection \<open>Building requests on the core thread\<close>

text \<open>
  \<^verbatim>\<open>pos = (ring->head + i) & (CBC_RING_BUFFER_SIZE - 1)\<close>, computed in 32-bit
  unsigned arithmetic. \<^verbatim>\<open>CBC_RING_BUFFER_SIZE\<close> is a macro of \<^verbatim>\<open>ioc.h\<close> and is
  the parameter \<open>rsz\<close>.
\<close>

definition ring_pos :: "nat \<Rightarrow> uint32 \<Rightarrow> nat \<Rightarrow> nat" where
  "ring_pos rsz h i = unat ((h + of_nat i) AND (of_nat rsz - 1))"

text \<open>
  The copy loop \<^verbatim>\<open>for (i = 0; i < link_len; i++) req->buf[i] = ring->buf[pos]\<close>
  after \<open>n\<close> rounds. A round with \<open>i\<close> beyond the end of \<open>req->buf\<close> writes outside the
  array in C and changes nothing here, so the theorems ask for \<open>n \<le> length b\<close>.
\<close>

primrec copy_link :: "nat \<Rightarrow> cbc_ring \<Rightarrow> nat \<Rightarrow> uint8 list \<Rightarrow> uint8 list" where
  "copy_link rsz rg 0 b = b"
| "copy_link rsz rg (Suc n) b =
     (copy_link rsz rg n b)[n := ring_buf rg ! ring_pos rsz (head rg) n]"

definition queue_full_rx :: string where
  "queue_full_rx = ''ioc queue is full!!, drop the data'' @ [CHR 0x0A, CHR 0x0D]"

definition ioc_build_request :: "nat \<Rightarrow> ioc_dev \<Rightarrow> int \<Rightarrow> int \<Rightarrow> ioc_dev" where
  "ioc_build_request rsz ioc llen slen =
     (case cbc_request_dequeue ioc CBC_QUEUE_T_FREE of
        (None, ioc1) \<Rightarrow> emit (Wprintf queue_full_rx) ioc1
      | (Some r, ioc1) \<Rightarrow>
          (let rq = pool ioc1 ! r;
               rq1 = rq\<lparr>buf := copy_link rsz (ring ioc1) (nat llen) (buf rq)\<rparr>;
               rq2 = rq1\<lparr>srv_len := slen\<rparr>;
               rq3 = rq2\<lparr>link_len := llen\<rparr>;
               ioc2 = ioc1\<lparr>pool := (pool ioc1)[r := rq3]\<rparr>
           in cbc_request_enqueue ioc2 (Some r) CBC_QUEUE_T_RX False))"

subsection \<open>Reading from a channel: \<open>ioc_ch_recv\<close> and \<open>ioc_process_tx\<close>\<close>

text \<open>
  What \<^verbatim>\<open>read(fd, p, size)\<close> can answer: a failure, or the bytes it stored at
  \<open>p\<close>, never more than \<open>size\<close> of them.
\<close>

datatype read_reply = RErr errno | RData "uint8 list"

text \<open>The result is the returned count and the bytes stored in the caller's buffer.\<close>

definition ioc_ch_recv ::
  "ioc_ch_info list \<Rightarrow> read_reply \<Rightarrow> nat \<Rightarrow> bool \<Rightarrow> nat \<Rightarrow> int \<times> uint8 list" where
  "ioc_ch_recv tbl rd i buf_null sz =
     (if fd (tbl ! i) < 0 \<or> buf_null \<or> sz = 0 then (- 1, [])
      else (case rd of
              RErr e \<Rightarrow> (- 1, [])
            | RData bs \<Rightarrow> (int (length (take sz bs)), take sz bs)))"

text \<open>Bytes \<open>bs\<close> stored into \<open>b\<close> from offset \<open>off\<close> on.\<close>

definition store_bytes :: "uint8 list \<Rightarrow> nat \<Rightarrow> uint8 list \<Rightarrow> uint8 list" where
  "store_bytes b off bs = take off b @ bs @ drop (off + length bs) b"

definition queue_full_tx :: string where
  "queue_full_tx = ''ioc free queue is full!!, drop the data'' @ [CHR 0x0D, CHR 0x0A]"

text \<open>
  \<^verbatim>\<open>CBC_SRV_POS\<close> and \<^verbatim>\<open>CBC_MAX_SERVICE_SIZE\<close> are macros of \<^verbatim>\<open>ioc.h\<close>
  and are the parameters \<open>srv_pos\<close> and \<open>max_srv\<close>. \<^verbatim>\<open>IOC_DUMMY\<close> is not defined
  (its \<^verbatim>\<open>#define\<close> is commented out), so \<^verbatim>\<open>req->id = id\<close> is the only
  assignment of the channel id.
\<close>

definition ioc_process_tx ::
  "nat \<Rightarrow> nat \<Rightarrow> ioc_ch_info list \<Rightarrow> read_reply \<Rightarrow> ioc_dev \<Rightarrow> nat \<Rightarrow> int \<times> ioc_dev" where
  "ioc_process_tx srv_pos max_srv tbl rd ioc i =
     (case cbc_request_dequeue ioc CBC_QUEUE_T_FREE of
        (None, ioc1) \<Rightarrow> (- 1, emit (Wprintf queue_full_tx) ioc1)
      | (Some r, ioc1) \<Rightarrow>
          (let (cnt, bs) = ioc_ch_recv tbl rd i False max_srv;
               rq = pool ioc1 ! r;
               rq1 = rq\<lparr>buf := store_bytes (buf rq) srv_pos bs\<rparr>;
               ioc2 = ioc1\<lparr>pool := (pool ioc1)[r := rq1]\<rparr>
           in if cnt \<le> 0
              then (- 1, cbc_request_enqueue ioc2 (Some r) CBC_QUEUE_T_FREE False)
              else
                (let rq2 = rq1\<lparr>srv_len := cnt\<rparr>;
                     rq3 = rq2\<lparr>link_len := 0\<rparr>;
                     rq4 = rq3\<lparr>rtype := CBC_REQ_T_PROT\<rparr>;
                     rq5 = rq4\<lparr>req_id := i\<rparr>;
                     ioc3 = ioc2\<lparr>pool := (pool ioc2)[r := rq5]\<rparr>
                 in (0, cbc_request_enqueue ioc3 (Some r) CBC_QUEUE_T_TX False))))"

definition sample_tbl :: "ioc_ch_info list" where
  "sample_tbl = [\<lparr>fd = - 1, name = IOC_NP_PMT, ch_id = 0, stat = IOC_CH_OFF\<rparr>,
     \<lparr>fd = 7, name = IOC_NP_LF, ch_id = 1, stat = IOC_CH_ON\<rparr>]"

subsection \<open>The rx and tx threads\<close>

datatype ioc_cfg = rx_config | tx_config

text \<open>The fields of \<^verbatim>\<open>struct cbc_pkt\<close> that \<^verbatim>\<open>ioc.c\<close> assigns.\<close>

record cbc_pkt =
  pkt_req :: "nat option"
  cfg :: "ioc_cfg option"
  boot_reason :: uint32
  qtype :: cbc_queue_type

text \<open>
  \<^verbatim>\<open>ioc->ioc_dev_rx\<close> and \<^verbatim>\<open>ioc->ioc_dev_tx\<close> are \<^verbatim>\<open>cbc_rx_handler\<close> and
  \<^verbatim>\<open>cbc_tx_handler\<close>, which live outside this file. A handler gets the packet and,
  through \<^verbatim>\<open>packet.req\<close>, the request; it has no access to the queues. It is an
  arbitrary function from the packet and the request to their new values.
\<close>

type_synonym cbc_handler = "cbc_pkt \<Rightarrow> cbc_request \<Rightarrow> cbc_pkt \<times> cbc_request"

text \<open>
  From \<^verbatim>\<open>pthread_mutex_lock(&ioc->rx_mtx)\<close> to the unlock after
  \<^verbatim>\<open>SIMPLEQ_REMOVE_HEAD\<close>. \<open>None\<close> means that the thread does not get a request in
  this round: the queue is empty and it waits on \<open>rx_cond\<close>, or \<open>closing\<close> is set and
  it leaves the loop.
\<close>

definition rx_take :: "ioc_dev \<Rightarrow> (nat \<times> ioc_dev) option" where
  "rx_take ioc =
     (let ioc1 = emit (Lock rx_mtx) ioc in
      if SIMPLEQ_EMPTY (rx_qhead ioc1) then None
      else if closing ioc1 then None
      else (case SIMPLEQ_FIRST (rx_qhead ioc1) of
              None \<Rightarrow> None
            | Some req \<Rightarrow>
                Some (req, emit (Unlock rx_mtx)
                  (ioc1\<lparr>rx_qhead := SIMPLEQ_REMOVE_HEAD (rx_qhead ioc1)\<rparr>))))"

definition tx_take :: "ioc_dev \<Rightarrow> (nat \<times> ioc_dev) option" where
  "tx_take ioc =
     (let ioc1 = emit (Lock tx_mtx) ioc in
      if SIMPLEQ_EMPTY (tx_qhead ioc1) then None
      else if closing ioc1 then None
      else (case SIMPLEQ_FIRST (tx_qhead ioc1) of
              None \<Rightarrow> None
            | Some req \<Rightarrow>
                Some (req, emit (Unlock tx_mtx)
                  (ioc1\<lparr>tx_qhead := SIMPLEQ_REMOVE_HEAD (tx_qhead ioc1)\<rparr>))))"

text \<open>"Route the cbc_request": the \<^verbatim>\<open>if\<close> after the handler, in each thread.\<close>

definition rx_route :: "ioc_dev \<Rightarrow> nat \<Rightarrow> cbc_queue_type \<Rightarrow> ioc_dev" where
  "rx_route ioc req q =
     (if q = CBC_QUEUE_T_TX then cbc_request_enqueue ioc (Some req) CBC_QUEUE_T_TX True
      else cbc_request_enqueue ioc (Some req) CBC_QUEUE_T_FREE False)"

definition tx_route :: "ioc_dev \<Rightarrow> nat \<Rightarrow> cbc_queue_type \<Rightarrow> ioc_dev" where
  "tx_route ioc req q =
     (if q = CBC_QUEUE_T_RX then cbc_request_enqueue ioc (Some req) CBC_QUEUE_T_RX True
      else cbc_request_enqueue ioc (Some req) CBC_QUEUE_T_FREE False)"

text \<open>
  One round of the \<^verbatim>\<open>for (;;)\<close> loop of \<open>ioc_rx_thread\<close> and of \<open>ioc_tx_thread\<close>,
  with no other thread running in between.
\<close>

definition ioc_rx_thread_round ::
  "cbc_handler \<Rightarrow> cbc_pkt \<Rightarrow> ioc_dev \<Rightarrow> (cbc_pkt \<times> ioc_dev) option" where
  "ioc_rx_thread_round ioc_dev_rx packet ioc =
     (case rx_take ioc of
        None \<Rightarrow> None
      | Some (req, ioc1) \<Rightarrow>
          (let packet1 = packet\<lparr>pkt_req := Some req\<rparr>;
               packet2 = packet1\<lparr>qtype := CBC_QUEUE_T_FREE\<rparr>;
               res = ioc_dev_rx packet2 (pool ioc1 ! req);
               ioc2 = ioc1\<lparr>pool := (pool ioc1)[req := snd res]\<rparr>
           in Some (fst res, rx_route ioc2 req (qtype (fst res)))))"

definition ioc_tx_thread_round ::
  "cbc_handler \<Rightarrow> cbc_pkt \<Rightarrow> ioc_dev \<Rightarrow> (cbc_pkt \<times> ioc_dev) option" where
  "ioc_tx_thread_round ioc_dev_tx packet ioc =
     (case tx_take ioc of
        None \<Rightarrow> None
      | Some (req, ioc1) \<Rightarrow>
          (let packet1 = packet\<lparr>pkt_req := Some req\<rparr>;
               packet2 = packet1\<lparr>qtype := CBC_QUEUE_T_FREE\<rparr>;
               res = ioc_dev_tx packet2 (pool ioc1 ! req);
               ioc2 = ioc1\<lparr>pool := (pool ioc1)[req := snd res]\<rparr>
           in Some (fst res, tx_route ioc2 req (qtype (fst res)))))"

text \<open>Two handlers for the examples: one forwards every request, one drops it.\<close>

definition forward_to :: "cbc_queue_type \<Rightarrow> cbc_handler" where
  "forward_to q packet rq = (packet\<lparr>qtype := q\<rparr>, rq)"

definition zero_pkt :: cbc_pkt where
  "zero_pkt = \<lparr>pkt_req = None, cfg = Some rx_config, boot_reason = 1,
     qtype = CBC_QUEUE_T_RX\<rparr>"

subsection \<open>The three threads running together\<close>

text \<open>
  Between two queue operations a thread holds the request in its local variable \<open>req\<close>.
  The system is the device together with the request each thread holds, if any. The
  core thread holds one between \<open>cbc_request_dequeue\<close> and the \<open>cbc_request_enqueue\<close>
  that follows it in \<open>ioc_build_request\<close> and \<open>ioc_process_tx\<close>; the rx and tx threads
  hold one while their handler runs.
\<close>

record ioc_sys =
  dev :: ioc_dev
  core_req :: "nat option"
  rx_req :: "nat option"
  tx_req :: "nat option"

text \<open>
  The atomic steps. Every queue operation runs under the queue's mutex, so the threads
  interleave at the level of whole operations. \<open>Rx_route q\<close> and \<open>Tx_route q\<close> are the
  routing after a handler that left \<open>packet.qtype = q\<close>; \<open>Req_write\<close> is a thread
  writing into the request it holds; \<open>Kill\<close> is \<^verbatim>\<open>ioc->closing = 1\<close>. A step that
  its thread cannot take in the current state (it waits, it has left its loop, or it is
  at another point of its code) leaves the state as it is.
\<close>

datatype ioc_action =
    Core_dequeue | Core_enqueue cbc_queue_type
  | Rx_take | Rx_route cbc_queue_type
  | Tx_take | Tx_route cbc_queue_type
  | Req_write nat cbc_request | Kill

fun ioc_step :: "ioc_action \<Rightarrow> ioc_sys \<Rightarrow> ioc_sys" where
  "ioc_step Core_dequeue s =
     (case core_req s of
        Some r \<Rightarrow> s
      | None \<Rightarrow> s\<lparr>dev := snd (cbc_request_dequeue (dev s) CBC_QUEUE_T_FREE),
                  core_req := fst (cbc_request_dequeue (dev s) CBC_QUEUE_T_FREE)\<rparr>)"
| "ioc_step (Core_enqueue q) s =
     s\<lparr>dev := cbc_request_enqueue (dev s) (core_req s) q False, core_req := None\<rparr>"
| "ioc_step Rx_take s =
     (case rx_req s of
        Some r \<Rightarrow> s
      | None \<Rightarrow> (case rx_take (dev s) of
                   None \<Rightarrow> s
                 | Some (r, d) \<Rightarrow> s\<lparr>dev := d, rx_req := Some r\<rparr>))"
| "ioc_step (Rx_route q) s =
     (case rx_req s of
        None \<Rightarrow> s
      | Some r \<Rightarrow> s\<lparr>dev := rx_route (dev s) r q, rx_req := None\<rparr>)"
| "ioc_step Tx_take s =
     (case tx_req s of
        Some r \<Rightarrow> s
      | None \<Rightarrow> (case tx_take (dev s) of
                   None \<Rightarrow> s
                 | Some (r, d) \<Rightarrow> s\<lparr>dev := d, tx_req := Some r\<rparr>))"
| "ioc_step (Tx_route q) s =
     (case tx_req s of
        None \<Rightarrow> s
      | Some r \<Rightarrow> s\<lparr>dev := tx_route (dev s) r q, tx_req := None\<rparr>)"
| "ioc_step (Req_write r rq) s =
     (if core_req s = Some r \<or> rx_req s = Some r \<or> tx_req s = Some r
      then s\<lparr>dev := (dev s)\<lparr>pool := (pool (dev s))[r := rq]\<rparr>\<rparr>
      else s)"
| "ioc_step Kill s = s\<lparr>dev := (dev s)\<lparr>closing := True\<rparr>\<rparr>"

text \<open>A schedule is a list of steps, run from left to right.\<close>

fun ioc_run :: "ioc_action list \<Rightarrow> ioc_sys \<Rightarrow> ioc_sys" where
  "ioc_run [] s = s"
| "ioc_run (a # as) s = ioc_run as (ioc_step a s)"

definition threads_idle :: "ioc_dev \<Rightarrow> ioc_sys" where
  "threads_idle d = \<lparr>dev = d, core_req = None, rx_req = None, tx_req = None\<rparr>"

text \<open>The requests held by the threads, as a list.\<close>

definition in_flight :: "ioc_sys \<Rightarrow> nat list" where
  "in_flight s =
     (case core_req s of None \<Rightarrow> [] | Some r \<Rightarrow> [r])
     @ (case rx_req s of None \<Rightarrow> [] | Some r \<Rightarrow> [r])
     @ (case tx_req s of None \<Rightarrow> [] | Some r \<Rightarrow> [r])"

text \<open>Every place a request can be: the three queues and the threads.\<close>

definition all_places :: "ioc_sys \<Rightarrow> nat list" where
  "all_places s =
     free_qhead (dev s) @ rx_qhead (dev s) @ tx_qhead (dev s) @ in_flight s"

subsection \<open>Opening the channels: \<open>ioc_ch_init\<close>\<close>

text \<open>
  \<^verbatim>\<open>enum ioc_ch_id\<close> is declared in \<^verbatim>\<open>ioc.h\<close>. The source indexes
  \<open>ioc_ch_tbl\<close> by channel id (\<^verbatim>\<open>ioc_ch_tbl[id].fd\<close>) and \<open>ioc_ch_init\<close> compares
  the index with the ids, so the id of a channel is its position in the table below.
  \<^verbatim>\<open>IOC_INIT_FD\<close> marks a closed channel, for which the source tests \<^verbatim>\<open>fd < 0\<close>;
  it is \<open>-1\<close>.
\<close>

abbreviation (input) IOC_NATIVE_PMT :: nat where "IOC_NATIVE_PMT \<equiv> 0"
abbreviation (input) IOC_NATIVE_LFCC :: nat where "IOC_NATIVE_LFCC \<equiv> 1"
abbreviation (input) IOC_NATIVE_SIGNAL :: nat where "IOC_NATIVE_SIGNAL \<equiv> 2"
abbreviation (input) IOC_NATIVE_ESIG :: nat where "IOC_NATIVE_ESIG \<equiv> 3"
abbreviation (input) IOC_NATIVE_DIAG :: nat where "IOC_NATIVE_DIAG \<equiv> 4"
abbreviation (input) IOC_NATIVE_DLT :: nat where "IOC_NATIVE_DLT \<equiv> 5"
abbreviation (input) IOC_NATIVE_LINDA :: nat where "IOC_NATIVE_LINDA \<equiv> 6"
abbreviation (input) IOC_NATIVE_RAW0 :: nat where "IOC_NATIVE_RAW0 \<equiv> 7"
abbreviation (input) IOC_NATIVE_RAW1 :: nat where "IOC_NATIVE_RAW1 \<equiv> 8"
abbreviation (input) IOC_NATIVE_RAW2 :: nat where "IOC_NATIVE_RAW2 \<equiv> 9"
abbreviation (input) IOC_NATIVE_RAW3 :: nat where "IOC_NATIVE_RAW3 \<equiv> 10"
abbreviation (input) IOC_NATIVE_RAW4 :: nat where "IOC_NATIVE_RAW4 \<equiv> 11"
abbreviation (input) IOC_NATIVE_RAW5 :: nat where "IOC_NATIVE_RAW5 \<equiv> 12"
abbreviation (input) IOC_NATIVE_RAW6 :: nat where "IOC_NATIVE_RAW6 \<equiv> 13"
abbreviation (input) IOC_NATIVE_RAW7 :: nat where "IOC_NATIVE_RAW7 \<equiv> 14"
abbreviation (input) IOC_NATIVE_RAW8 :: nat where "IOC_NATIVE_RAW8 \<equiv> 15"
abbreviation (input) IOC_NATIVE_RAW9 :: nat where "IOC_NATIVE_RAW9 \<equiv> 16"
abbreviation (input) IOC_NATIVE_RAW10 :: nat where "IOC_NATIVE_RAW10 \<equiv> 17"
abbreviation (input) IOC_NATIVE_RAW11 :: nat where "IOC_NATIVE_RAW11 \<equiv> 18"
abbreviation (input) IOC_VIRTUAL_UART :: nat where "IOC_VIRTUAL_UART \<equiv> 19"
abbreviation (input) IOC_INIT_FD :: int where "IOC_INIT_FD \<equiv> - 1"

definition ioc_ch_tbl :: "ioc_ch_info list" where
  "ioc_ch_tbl =
    [\<lparr>fd = IOC_INIT_FD, name = IOC_NP_PMT, ch_id = IOC_NATIVE_PMT, stat = IOC_CH_OFF\<rparr>,
     \<lparr>fd = IOC_INIT_FD, name = IOC_NP_LF, ch_id = IOC_NATIVE_LFCC, stat = IOC_CH_ON\<rparr>,
     \<lparr>fd = IOC_INIT_FD, name = IOC_NP_SIG, ch_id = IOC_NATIVE_SIGNAL, stat = IOC_CH_ON\<rparr>,
     \<lparr>fd = IOC_INIT_FD, name = IOC_NP_ESIG, ch_id = IOC_NATIVE_ESIG, stat = IOC_CH_OFF\<rparr>,
     \<lparr>fd = IOC_INIT_FD, name = IOC_NP_DIAG, ch_id = IOC_NATIVE_DIAG, stat = IOC_CH_OFF\<rparr>,
     \<lparr>fd = IOC_INIT_FD, name = IOC_NP_DLT, ch_id = IOC_NATIVE_DLT, stat = IOC_CH_OFF\<rparr>,
     \<lparr>fd = IOC_INIT_FD, name = IOC_NP_LIND, ch_id = IOC_NATIVE_LINDA, stat = IOC_CH_OFF\<rparr>,
     \<lparr>fd = IOC_INIT_FD, name = IOC_NP_RAW0, ch_id = IOC_NATIVE_RAW0, stat = IOC_CH_ON\<rparr>,
     \<lparr>fd = IOC_INIT_FD, name = IOC_NP_RAW1, ch_id = IOC_NATIVE_RAW1, stat = IOC_CH_ON\<rparr>,
     \<lparr>fd = IOC_INIT_FD, name = IOC_NP_RAW2, ch_id = IOC_NATIVE_RAW2, stat = IOC_CH_ON\<rparr>,
     \<lparr>fd = IOC_INIT_FD, name = IOC_NP_RAW3, ch_id = IOC_NATIVE_RAW3, stat = IOC_CH_ON\<rparr>,
     \<lparr>fd = IOC_INIT_FD, name = IOC_NP_RAW4, ch_id = IOC_NATIVE_RAW4, stat = IOC_CH_ON\<rparr>,
     \<lparr>fd = IOC_INIT_FD, name = IOC_NP_RAW5, ch_id = IOC_NATIVE_RAW5, stat = IOC_CH_ON\<rparr>,
     \<lparr>fd = IOC_INIT_FD, name = IOC_NP_RAW6, ch_id = IOC_NATIVE_RAW6, stat = IOC_CH_ON\<rparr>,
     \<lparr>fd = IOC_INIT_FD, name = IOC_NP_RAW7, ch_id = IOC_NATIVE_RAW7, stat = IOC_CH_ON\<rparr>,
     \<lparr>fd = IOC_INIT_FD, name = IOC_NP_RAW8, ch_id = IOC_NATIVE_RAW8, stat = IOC_CH_ON\<rparr>,
     \<lparr>fd = IOC_INIT_FD, name = IOC_NP_RAW9, ch_id = IOC_NATIVE_RAW9, stat = IOC_CH_ON\<rparr>,
     \<lparr>fd = IOC_INIT_FD, name = IOC_NP_RAW10, ch_id = IOC_NATIVE_RAW10, stat = IOC_CH_ON\<rparr>,
     \<lparr>fd = IOC_INIT_FD, name = IOC_NP_RAW11, ch_id = IOC_NATIVE_RAW11, stat = IOC_CH_ON\<rparr>,
     \<lparr>fd = IOC_INIT_FD, name = IOC_DP_NONE, ch_id = IOC_VIRTUAL_UART, stat = IOC_CH_ON\<rparr>]"

text \<open>
  The replies of the operating system during start-up, one field per call site. A call
  returning \<^verbatim>\<open>int\<close> replies with that value; \<open>sys_open\<close> and \<open>sys_pthread_create\<close>
  depend on the path and on the thread name.
\<close>

record ioc_env =
  sys_stat :: int
  sys_calloc_ioc :: bool
  sys_calloc_pool :: bool
  sys_calloc_evts :: bool
  sys_epoll_create1 :: int
  sys_open :: "dev_path \<Rightarrow> int"
  sys_open_ptmx :: int
  sys_grantpt :: int
  sys_unlockpt :: int
  sys_ptsname :: "string option"
  sys_unlink :: int
  sys_unlink_errno :: errno
  sys_symlink :: int
  sys_chmod :: int
  sys_tcgetattr :: int
  sys_tcsetattr :: int
  sys_pthread_create :: "string \<Rightarrow> int"

text \<open>The calls made, in order; start-up returns them next to its result.\<close>

datatype ioc_call =
    Call_stat | Call_calloc_ioc | Call_calloc_pool | Call_calloc_evts
  | Call_epoll_create1 | Call_open dev_path | Call_open_ptmx | Call_grantpt
  | Call_unlockpt | Call_ptsname | Call_unlink string | Call_symlink string string
  | Call_chmod string | Call_tcgetattr | Call_tcsetattr | Call_close int
  | Call_wlist_init | Call_pthread_create string | Call_kill_workers | Call_free

definition ioc_open_native_ch :: "ioc_env \<Rightarrow> dev_path \<Rightarrow> int \<times> ioc_call list" where
  "ioc_open_native_ch env dev_name = (sys_open env dev_name, [Call_open dev_name])"

definition ioc_open_virtual_uart :: "ioc_env \<Rightarrow> string \<Rightarrow> int \<times> ioc_call list" where
  "ioc_open_virtual_uart env dev_name =
     (let fd0 = sys_open_ptmx env;
          pty_err = (\<lambda>cs. (- 1, cs @ [Call_close fd0]));
          attr_err = (\<lambda>cs. pty_err (cs @ [Call_unlink dev_name]));
          c1 = [Call_open_ptmx];
          c2 = c1 @ [Call_grantpt];
          c3 = c2 @ [Call_unlockpt];
          c4 = c3 @ [Call_ptsname];
          c5 = c4 @ [Call_unlink dev_name];
          c6 = c5 @ [Call_symlink (case sys_ptsname env of None \<Rightarrow> [] | Some n \<Rightarrow> n) dev_name];
          c7 = c6 @ [Call_chmod dev_name];
          c8 = c7 @ [Call_tcgetattr];
          c9 = c8 @ [Call_tcsetattr]
      in if fd0 < 0 then (- 1, c1)
         else if sys_grantpt env < 0 then pty_err c2
         else if sys_unlockpt env < 0 then pty_err c3
         else if sys_ptsname env = None then pty_err c4
         else if sys_unlink env < 0 \<and> sys_unlink_errno env \<noteq> ENOENT then pty_err c5
         else if sys_symlink env < 0 then pty_err c6
         else if sys_chmod env < 0 then attr_err c7
         else if sys_tcgetattr env < 0 then attr_err c8
         else if sys_tcsetattr env < 0 then attr_err c9
         else (fd0, c9))"

text \<open>The \<^verbatim>\<open>switch (i)\<close> of \<open>ioc_ch_init\<close>, without the \<^verbatim>\<open>IOC_DUMMY\<close> cases.\<close>

definition ch_open :: "ioc_env \<Rightarrow> string \<Rightarrow> nat \<Rightarrow> ioc_ch_info \<Rightarrow> int \<times> ioc_call list" where
  "ch_open env path i chl =
     (if i = IOC_NATIVE_LFCC \<or> i = IOC_NATIVE_SIGNAL
         \<or> (IOC_NATIVE_RAW0 \<le> i \<and> i \<le> IOC_NATIVE_RAW11)
      then ioc_open_native_ch env (name chl)
      else if i = IOC_VIRTUAL_UART then ioc_open_virtual_uart env path
      else (- 1, []))"

text \<open>
  The \<^verbatim>\<open>for\<close> loop of \<open>ioc_ch_init\<close> from index \<open>i\<close> on; \<open>cs\<close> collects the calls.
  \<open>path\<close> is the global \<open>virtual_uart_path\<close>.
\<close>

function ch_init_loop ::
  "ioc_env \<Rightarrow> string \<Rightarrow> nat \<Rightarrow> ioc_ch_info list \<Rightarrow> ioc_call list
   \<Rightarrow> int \<times> ioc_ch_info list \<times> ioc_call list" where
  "ch_init_loop env path i tbl cs =
     (if i < length tbl then
        (if stat (tbl ! i) = IOC_CH_OFF then ch_init_loop env path (Suc i) tbl cs
         else if fst (ch_open env path i (tbl ! i)) < 0
                 \<and> (i = IOC_NATIVE_LFCC \<or> i = IOC_VIRTUAL_UART)
         then (- 1, tbl, cs @ snd (ch_open env path i (tbl ! i)))
         else ch_init_loop env path (Suc i)
                (tbl[i := (tbl ! i)\<lparr>fd := fst (ch_open env path i (tbl ! i))\<rparr>])
                (cs @ snd (ch_open env path i (tbl ! i))))
      else (0, tbl, cs))"
  by pat_completeness auto
termination
  by (relation "measure (\<lambda>(env, path, i, tbl, cs). length tbl - i)") auto

definition ioc_ch_init :: "ioc_env \<Rightarrow> string \<Rightarrow> ioc_ch_info list
   \<Rightarrow> int \<times> ioc_ch_info list \<times> ioc_call list" where
  "ioc_ch_init env path tbl = ch_init_loop env path 0 tbl []"

text \<open>\<open>ioc_ch_deinit\<close>: every open channel is closed and marked closed.\<close>

definition ioc_ch_deinit :: "ioc_ch_info list \<Rightarrow> ioc_ch_info list \<times> ioc_call list" where
  "ioc_ch_deinit tbl =
     (map (\<lambda>chl. if fd chl < 0 then chl else chl\<lparr>fd := IOC_INIT_FD\<rparr>) tbl,
      map (\<lambda>chl. Call_close (fd chl)) (filter (\<lambda>chl. \<not> fd chl < 0) tbl))"

subsection \<open>Start-up: \<open>ioc_parse\<close> and \<open>ioc_init\<close>\<close>

text \<open>The two file-scope variables that \<open>ioc_parse\<close> sets and \<open>ioc_init\<close> reads.\<close>

record ioc_globals =
  virtual_uart_path :: string
  ioc_boot_reason :: uint32

definition globals0 :: ioc_globals where
  "globals0 = \<lparr>virtual_uart_path = [], ioc_boot_reason = 0\<rparr>"

text \<open>
  \<^verbatim>\<open>strtok(s, ",")\<close> on the characters \<open>s\<close> it starts from: it skips commas, and
  returns no token (a null pointer) when nothing is left; otherwise the token runs to the
  next comma or to the end. The second component is where the next
  \<^verbatim>\<open>strtok(NULL, ",")\<close> starts.
\<close>

definition strtok :: "string \<Rightarrow> string option \<times> string" where
  "strtok s =
     (let s1 = dropWhile (\<lambda>c. c = CHR '','') s in
      if s1 = [] then (None, [])
      else (Some (takeWhile (\<lambda>c. c \<noteq> CHR '','') s1),
            drop 1 (dropWhile (\<lambda>c. c \<noteq> CHR '','') s1)))"

text \<open>
  After the first \<open>strtok\<close> the C string at \<open>param\<close> is cut behind the first token: the
  commas that \<open>strtok\<close> skipped, then the token.
\<close>

definition param_after_strtok :: "string \<Rightarrow> string" where
  "param_after_strtok s =
     takeWhile (\<lambda>c. c = CHR '','') s
     @ (case fst (strtok s) of None \<Rightarrow> [] | Some t \<Rightarrow> t)"

datatype parse_error = Strtoul_null_pointer

text \<open>
  \<open>strtoul\<close> is the C library's \<^verbatim>\<open>strtoul(s, 0, 0)\<close> on a proper string. Called
  with a null pointer it has no defined behaviour: that call is the error
  \<open>Strtoul_null_pointer\<close>. \<^verbatim>\<open>strdup\<close> is taken to succeed. The path buffer has 32
  bytes, so \<^verbatim>\<open>snprintf\<close> keeps 31 characters.
\<close>

definition ioc_parse ::
  "(string \<Rightarrow> nat) \<Rightarrow> ioc_globals \<Rightarrow> string \<Rightarrow> parse_error + (int \<times> ioc_globals)" where
  "ioc_parse strtoul g opts =
     (let param = opts;
          tmp = fst (strtok param);
          g1 = g\<lparr>virtual_uart_path := take 31 (param_after_strtok param)\<rparr>
      in if tmp \<noteq> None then
           (case fst (strtok (snd (strtok param))) of
              None \<Rightarrow> Inl Strtoul_null_pointer
            | Some tmp2 \<Rightarrow> Inr (0, g1\<lparr>ioc_boot_reason := of_nat (strtoul tmp2)\<rparr>))
         else Inr (0, g1))"

text \<open>A stand-in for \<open>strtoul\<close> on decimal numbers, for the examples.\<close>

fun decimal :: "nat \<Rightarrow> string \<Rightarrow> nat" where
  "decimal acc [] = acc"
| "decimal acc (c # cs) =
     (if (48::nat) \<le> of_char c \<and> of_char c \<le> (57::nat)
      then decimal (acc * 10 + (of_char c - 48)) cs
      else acc)"

text \<open>
  \<open>free_fill n\<close> is the loop that puts \<^verbatim>\<open>ioc->pool + i\<close> for \<open>i < n\<close> at the tail of
  the free queue.
\<close>

primrec free_fill :: "nat \<Rightarrow> nat list \<Rightarrow> nat list" where
  "free_fill 0 q = q"
| "free_fill (Suc n) q = SIMPLEQ_INSERT_TAIL (free_fill n q) n"

text \<open>
  \<open>ioc_init\<close>. \<open>max_requests\<close> is \<^verbatim>\<open>IOC_MAX_REQUESTS\<close>, \<open>bsz\<close> the size of
  \<^verbatim>\<open>req->buf\<close> and \<open>rsz\<close> is \<^verbatim>\<open>CBC_RING_BUFFER_SIZE\<close>, all from \<^verbatim>\<open>ioc.h\<close>.
  \<^verbatim>\<open>calloc\<close> gives zeroed memory. The result is the handle (\<open>None\<close> for a null
  pointer), the channel table and the calls made. The whitelist and configuration
  tables are set up by \<^verbatim>\<open>wlist_init_signal\<close> and \<^verbatim>\<open>wlist_init_group\<close>, which live
  outside this file, and are not part of the device record here.
\<close>

definition ioc_init ::
  "nat \<Rightarrow> nat \<Rightarrow> nat \<Rightarrow> ioc_env \<Rightarrow> ioc_globals \<Rightarrow> ioc_ch_info list
   \<Rightarrow> ioc_dev option \<times> ioc_ch_info list \<times> ioc_call list" where
  "ioc_init max_requests bsz rsz env g tbl =
     (let c1 = [Call_stat];
          c2 = c1 @ [Call_calloc_ioc];
          c3 = c2 @ [Call_calloc_pool, Call_calloc_evts];
          c4 = c3 @ [Call_epoll_create1];
          alloc_err = (\<lambda>cs. cs @ [Call_free, Call_free, Call_free]);
          chl_err = (\<lambda>t cs. (None, fst (ioc_ch_deinit t),
                      alloc_err (cs @ snd (ioc_ch_deinit t) @ [Call_close (sys_epoll_create1 env)])));
          work_err = (\<lambda>t cs. chl_err t (cs @ [Call_kill_workers]))
      in if sys_stat env \<noteq> 0 then (None, tbl, c1)
         else if ioc_boot_reason g = 0 then (None, tbl, c1)
         else if \<not> sys_calloc_ioc env then (None, tbl, c2)
         else if \<not> sys_calloc_pool env \<or> \<not> sys_calloc_evts env then (None, tbl, alloc_err c3)
         else if sys_epoll_create1 env < 0 then (None, tbl, alloc_err c4)
         else
           (let ioc = \<lparr>pool = replicate max_requests
                         \<lparr>srv_len = 0, link_len = 0, req_id = 0, rtype = CBC_REQ_T_PROT,
                          buf = replicate bsz 0\<rparr>,
                       free_qhead = free_fill max_requests [],
                       rx_qhead = [], tx_qhead = [],
                       ring = \<lparr>head = 0, tail = 0, ring_buf = replicate rsz 0\<rparr>,
                       closing = False, trace = []\<rparr>;
                ch = ioc_ch_init env (virtual_uart_path g) tbl;
                tbl1 = fst (snd ch);
                c5 = c4 @ snd (snd ch);
                c6 = c5 @ [Call_wlist_init, Call_wlist_init, Call_wlist_init, Call_wlist_init];
                c7 = c6 @ [Call_pthread_create ''ioc_rx''];
                c8 = c7 @ [Call_pthread_create ''ioc_tx''];
                c9 = c8 @ [Call_pthread_create ''ioc_core'']
            in if fst ch \<noteq> 0 then chl_err tbl1 c5
               else if sys_pthread_create env ''ioc_rx'' \<noteq> 0 then work_err tbl1 c7
               else if sys_pthread_create env ''ioc_tx'' \<noteq> 0 then work_err tbl1 c8
               else if sys_pthread_create env ''ioc_core'' \<noteq> 0 then work_err tbl1 c9
               else (Some ioc, tbl1, c9)))"

text \<open>An operating system on which every call succeeds.\<close>

definition good_env :: ioc_env where
  "good_env = \<lparr>sys_stat = 0, sys_calloc_ioc = True, sys_calloc_pool = True,
     sys_calloc_evts = True, sys_epoll_create1 = 3, sys_open = (\<lambda>p. 10),
     sys_open_ptmx = 4, sys_grantpt = 0, sys_unlockpt = 0, sys_ptsname = Some ''/dev/pts/1'',
     sys_unlink = 0, sys_unlink_errno = ENOENT, sys_symlink = 0, sys_chmod = 0,
     sys_tcgetattr = 0, sys_tcsetattr = 0, sys_pthread_create = (\<lambda>n. 0)\<rparr>"

text \<open>Start-up values and operating systems for the examples.\<close>

definition boot1 :: ioc_globals where
  "boot1 = \<lparr>virtual_uart_path = ''/tmp/vuart'', ioc_boot_reason = 1\<rparr>"

definition booted_dev :: ioc_dev where
  "booted_dev = \<lparr>pool = replicate 3 \<lparr>srv_len = 0, link_len = 0, req_id = 0,
       rtype = CBC_REQ_T_PROT, buf = replicate 8 0\<rparr>,
     free_qhead = [0, 1, 2], rx_qhead = [], tx_qhead = [],
     ring = \<lparr>head = 0, tail = 0, ring_buf = replicate 8 0\<rparr>,
     closing = False, trace = []\<rparr>"

definition sample_schedule :: "ioc_action list" where
  "sample_schedule = [Core_dequeue, Core_enqueue CBC_QUEUE_T_RX, Rx_take, Core_dequeue,
     Rx_route CBC_QUEUE_T_TX, Tx_take]"

definition raw3_fails :: ioc_env where
  "raw3_fails = good_env\<lparr>sys_open := (\<lambda>p. if p = IOC_NP_RAW3 then - 1 else 10)\<rparr>"

definition lf_fails :: ioc_env where
  "lf_fails = good_env\<lparr>sys_open := (\<lambda>p. if p = IOC_NP_LF then - 1 else 10)\<rparr>"

section \<open>Theorems\<close>

lemma written_le: "written wr sz k \<le> sz"
  by (induction k) (auto simp: write_rc_def split: write_reply.splits)

lemma xmit_loop_run:
  assumes "\<forall>j<k. \<exists>n. wr (m + j) = WOk n"
    and "\<forall>j<k. written (\<lambda>i. wr (m + i)) (sz - c) j < sz - c"
    and "written (\<lambda>i. wr (m + i)) (sz - c) k = sz - c \<or> (\<exists>e. wr (m + k) = WErr e)"
    and "c \<le> sz"
  shows "xmit_loop wr m (int c) sz = Some (int (c + written (\<lambda>i. wr (m + i)) (sz - c) k))"
  using assms
proof (induction k arbitrary: m c)
  case 0
  then show ?case
    by (subst xmit_loop.simps) (auto simp: write_rc_def)
next
  case (Suc k)
  from Suc.prems(1) obtain n where n: "wr m = WOk n" by force
  from Suc.prems(2) have lt: "0 < sz - c" by force
  let ?c' = "c + min n (sz - c)"
  have shift: "written (\<lambda>i. wr (m + i)) (sz - c) (Suc j) =
      min n (sz - c) + written (\<lambda>i. wr (Suc m + i)) (sz - ?c') j" for j
  proof (induction j)
    case 0
    then show ?case using n by (simp add: write_rc_def)
  next
    case (Suc j)
    have "sz - c - (min n (sz - c) + x) = sz - ?c' - x" for x by simp
    with Suc show ?case by simp
  qed
  have a1: "\<forall>j<k. \<exists>n. wr (Suc m + j) = WOk n"
    using Suc.prems(1) by (metis Suc_less_eq add_Suc_shift)
  have a2: "\<forall>j<k. written (\<lambda>i. wr (Suc m + i)) (sz - ?c') j < sz - ?c'"
  proof (intro allI impI)
    fix j assume "j < k"
    then have "Suc j < Suc k" by simp
    then have "written (\<lambda>i. wr (m + i)) (sz - c) (Suc j) < sz - c"
      using Suc.prems(2) by blast
    then show "written (\<lambda>i. wr (Suc m + i)) (sz - ?c') j < sz - ?c'"
      unfolding shift by linarith
  qed
  have a3: "written (\<lambda>i. wr (Suc m + i)) (sz - ?c') k = sz - ?c' \<or> (\<exists>e. wr (Suc m + k) = WErr e)"
  proof -
    have "written (\<lambda>i. wr (m + i)) (sz - c) (Suc k) = sz - c \<Longrightarrow>
        written (\<lambda>i. wr (Suc m + i)) (sz - ?c') k = sz - ?c'"
      unfolding shift by linarith
    then show ?thesis using Suc.prems(3) by auto
  qed
  have a4: "?c' \<le> sz" using Suc.prems(4) by simp
  have step: "xmit_loop wr m (int c) sz = xmit_loop wr (Suc m) (int ?c') sz"
    using lt n Suc.prems(4)
    by (subst xmit_loop.simps) (simp add: write_rc_def nat_diff_distrib' of_nat_diff)
  show ?case
    unfolding step Suc.IH [OF a1 a2 a3 a4] shift by simp
qed

subsection \<open>C1: the write loop of \<open>ioc_ch_xmit\<close>\<close>

text \<open>
  C1 as stated says that a would-block reply is treated like a short write and retried
  inside the loop. The source tests only \<^verbatim>\<open>rc < 0\<close> and breaks, whatever
  \<open>errno\<close> is. Channel 0 is open and the buffer has three bytes. When the first
  \<^verbatim>\<open>write\<close> is a short write of no bytes, the loop goes on and the second
  \<^verbatim>\<open>write\<close> takes all three. When the first \<^verbatim>\<open>write\<close> answers \<open>EAGAIN\<close>
  instead, with the same second reply waiting, the function returns 0 at once.
\<close>

theorem ioc_ch_xmit_eagain_counterexample:
  "eagain_then_ok 0 = WErr EAGAIN \<and> zero_then_ok 0 = WOk 0
   \<and> eagain_then_ok 1 = WOk 3 \<and> zero_then_ok 1 = WOk 3
   \<and> ioc_ch_xmit one_open_channel eagain_then_ok 0 (Some [1, 2, 3]) 3 = Some 0
   \<and> ioc_ch_xmit one_open_channel zero_then_ok 0 (Some [1, 2, 3]) 3 = Some 3"
proof -
  have "xmit_loop eagain_then_ok 0 0 3 = Some 0"
    by (subst xmit_loop.simps) (simp add: eagain_then_ok_def write_rc_def)
  moreover have "xmit_loop zero_then_ok 2 3 3 = Some 3"
    by (subst xmit_loop.simps) simp
  then have "xmit_loop zero_then_ok 1 0 3 = Some 3"
    by (subst xmit_loop.simps) (simp add: zero_then_ok_def write_rc_def numeral_2_eq_2)
  then have "xmit_loop zero_then_ok 0 0 3 = Some 3"
    by (subst xmit_loop.simps) (simp add: zero_then_ok_def write_rc_def)
  ultimately show ?thesis
    by (simp add: ioc_ch_xmit_def one_open_channel_def eagain_then_ok_def zero_then_ok_def)
qed

text \<open>
  C1 as amended: on an open channel with a non-empty buffer of \<open>sz\<close> bytes,
  \<open>ioc_ch_xmit\<close> keeps writing after every short write (a reply of 0 or more bytes,
  fewer than what remains) and stops at the first call after which all \<open>sz\<close> bytes are
  written, or at the first \<^verbatim>\<open>write\<close> that fails with any \<open>errno\<close>, \<open>EAGAIN\<close>
  included; it returns the number of bytes written until then. \<open>k\<close> is the number of
  writes before the loop stops.
\<close>

theorem ioc_ch_xmit_until_written_or_error:
  assumes "i < length tbl" and "0 \<le> fd (tbl ! i)" and "bufp \<noteq> None"
    and "0 < sz" and "sz \<le> 2147483647"
    and "\<forall>j<k. \<exists>n. wr j = WOk n"
    and "\<forall>j<k. written wr sz j < sz"
    and "written wr sz k = sz \<or> (\<exists>e. wr k = WErr e)"
  shows "ioc_ch_xmit tbl wr i bufp sz = Some (int (written wr sz k))"
proof -
  have "xmit_loop wr 0 (int 0) sz = Some (int (0 + written (\<lambda>i. wr (0 + i)) (sz - 0) k))"
    by (rule xmit_loop_run) (use assms in simp_all)
  then show ?thesis
    using assms by (simp add: ioc_ch_xmit_def)
qed

theorem ioc_ch_xmit_until_written_or_error_witness:
  "short_then_eagain 1 = WErr EAGAIN
   \<and> written short_then_eagain 3 1 = 2
   \<and> ioc_ch_xmit one_open_channel short_then_eagain 0 (Some [1, 2, 3]) 3 = Some 2"
proof -
  have w: "written short_then_eagain 3 1 = 2"
    by (simp add: short_then_eagain_def write_rc_def)
  have "ioc_ch_xmit one_open_channel short_then_eagain 0 (Some [1, 2, 3]) 3
      = Some (int (written short_then_eagain 3 1))"
    by (rule ioc_ch_xmit_until_written_or_error)
      (simp_all add: one_open_channel_def short_then_eagain_def)
  with w show ?thesis
    by (simp add: short_then_eagain_def)
qed

subsection \<open>C5: \<open>cbc_request_enqueue\<close>\<close>

text \<open>
  C5: for a non-null request \<open>r\<close>, \<open>cbc_request_enqueue\<close> puts \<open>r\<close> at the head of
  the selected queue when \<open>to_head\<close> holds and at its tail otherwise, and changes no
  other queue. It locks that queue's mutex first and unlocks it last; between the two it
  calls \<^verbatim>\<open>pthread_cond_signal\<close> once, on the queue's own condition variable, when
  the queue is rx or tx, and not at all when it is the free queue.
\<close>

theorem cbc_request_enqueue_splice_and_signal:
  "cbc_request_enqueue ioc (Some r) CBC_QUEUE_T_RX to_head =
     ioc\<lparr>rx_qhead := (if to_head then r # rx_qhead ioc else rx_qhead ioc @ [r]),
         trace := trace ioc @ [Lock rx_mtx, Signal rx_cond, Unlock rx_mtx]\<rparr>
   \<and> cbc_request_enqueue ioc (Some r) CBC_QUEUE_T_TX to_head =
     ioc\<lparr>tx_qhead := (if to_head then r # tx_qhead ioc else tx_qhead ioc @ [r]),
         trace := trace ioc @ [Lock tx_mtx, Signal tx_cond, Unlock tx_mtx]\<rparr>
   \<and> cbc_request_enqueue ioc (Some r) CBC_QUEUE_T_FREE to_head =
     ioc\<lparr>free_qhead := (if to_head then r # free_qhead ioc else free_qhead ioc @ [r]),
         trace := trace ioc @ [Lock free_mtx, Unlock free_mtx]\<rparr>"
  by (simp add: cbc_request_enqueue_def emit_def qhead_get_def qhead_set_def
      SIMPLEQ_INSERT_HEAD_def SIMPLEQ_INSERT_TAIL_def Let_def)

subsection \<open>C8: \<open>cbc_request_dequeue\<close>\<close>

text \<open>
  C8: on the free queue \<open>cbc_request_dequeue\<close> returns null when the queue is empty and
  otherwise removes the head and returns it, in both cases after one lock and before one
  unlock of the free mutex and without waiting on a condition variable. On the rx and the tx queue
  it returns null and leaves the whole device as it was.
\<close>

theorem cbc_request_dequeue_free_only:
  "(free_qhead ioc = [] \<longrightarrow>
      cbc_request_dequeue ioc CBC_QUEUE_T_FREE =
        (None, ioc\<lparr>trace := trace ioc @ [Lock free_mtx, Unlock free_mtx]\<rparr>))
   \<and> (\<forall>r rest. free_qhead ioc = r # rest \<longrightarrow>
      cbc_request_dequeue ioc CBC_QUEUE_T_FREE =
        (Some r, ioc\<lparr>free_qhead := rest,
                     trace := trace ioc @ [Lock free_mtx, Unlock free_mtx]\<rparr>))
   \<and> cbc_request_dequeue ioc CBC_QUEUE_T_RX = (None, ioc)
   \<and> cbc_request_dequeue ioc CBC_QUEUE_T_TX = (None, ioc)"
  by (simp add: cbc_request_dequeue_def emit_def SIMPLEQ_EMPTY_def SIMPLEQ_FIRST_def
      SIMPLEQ_REMOVE_HEAD_def Let_def)

theorem cbc_request_dequeue_free_only_witness:
  "free_qhead sample_dev = [2, 3]
   \<and> cbc_request_dequeue sample_dev CBC_QUEUE_T_FREE =
       (Some 2, sample_dev\<lparr>free_qhead := [3], trace := [Lock free_mtx, Unlock free_mtx]\<rparr>)
   \<and> free_qhead (sample_dev\<lparr>free_qhead := []\<rparr>) = []
   \<and> cbc_request_dequeue (sample_dev\<lparr>free_qhead := []\<rparr>) CBC_QUEUE_T_FREE =
       (None, sample_dev\<lparr>free_qhead := [], trace := [Lock free_mtx, Unlock free_mtx]\<rparr>)"
  using cbc_request_dequeue_free_only [of sample_dev]
    cbc_request_dequeue_free_only [of "sample_dev\<lparr>free_qhead := []\<rparr>"]
  by (simp add: sample_dev_def)

subsection \<open>C3: \<open>ioc_build_request\<close>\<close>

lemma length_copy_link: "length (copy_link rsz rg n b) = length b"
  by (induction n) simp_all

lemma copy_link_copied:
  "n \<le> length b \<Longrightarrow> i < n \<Longrightarrow>
   copy_link rsz rg n b ! i = ring_buf rg ! ring_pos rsz (head rg) i"
proof (induction n)
  case 0
  then show ?case by simp
next
  case (Suc n)
  show ?case
  proof (cases "i = n")
    case True
    with Suc.prems show ?thesis by (simp add: length_copy_link)
  next
    case False
    with Suc.prems have "i < n" by simp
    with Suc show ?thesis by simp
  qed
qed

lemma copy_link_kept: "n \<le> i \<Longrightarrow> copy_link rsz rg n b ! i = b ! i"
  by (induction n) simp_all

text \<open>
  With a ring of \<open>2 ^ m\<close> bytes (\<open>m \<le> 32\<close>) the masked position is the position
  \<open>head + i\<close> taken modulo the size of the ring.
\<close>

lemma ring_pos_mod:
  assumes "m \<le> 32"
  shows "ring_pos (2 ^ m) h i = (unat h + i) mod 2 ^ m"
proof -
  have "(of_nat (2 ^ m) :: uint32) - 1 = mask m"
    by (simp add: mask_eq_exp_minus_1)
  moreover have "unat (x AND mask m) = unat x mod 2 ^ m" for x :: uint32
    by (metis take_bit_eq_mask unsigned_take_bit_eq take_bit_eq_mod)
  ultimately have "ring_pos (2 ^ m) h i = unat (h + of_nat i) mod 2 ^ m"
    by (simp add: ring_pos_def)
  also have "\<dots> = ((unat h + i) mod 2 ^ 32) mod 2 ^ m"
    by (simp add: unat_word_ariths unat_of_nat mod_add_right_eq)
  also have "\<dots> = (unat h + i) mod 2 ^ m"
  proof -
    have "(2::nat) ^ m dvd 2 ^ 32"
      using assms by (rule le_imp_power_dvd)
    then show ?thesis
      by (rule mod_mod_cancel)
  qed
  finally show ?thesis .
qed

text \<open>
  C3: when the free queue is empty, \<open>ioc_build_request\<close> prints its warning and changes
  neither a queue nor a request. Otherwise it takes the request \<open>r\<close> at the head of the
  free queue, sets bytes \<open>0 .. llen - 1\<close> of its buffer to the ring bytes at
  \<open>(head + i) AND (CBC_RING_BUFFER_SIZE - 1)\<close>, leaves the other bytes, sets \<open>link_len\<close>
  and \<open>srv_len\<close> to the arguments, and appends \<open>r\<close> to the rx queue; the tx queue and
  the other requests stay as they were.
\<close>

theorem ioc_build_request_spec:
  "(free_qhead ioc = [] \<longrightarrow>
      ioc_build_request rsz ioc llen slen =
        ioc\<lparr>trace := trace ioc @ [Lock free_mtx, Unlock free_mtx, Wprintf queue_full_rx]\<rparr>)
   \<and> (\<forall>r rest. free_qhead ioc = r # rest \<and> r < length (pool ioc)
         \<and> nat llen \<le> length (buf (pool ioc ! r)) \<longrightarrow>
       free_qhead (ioc_build_request rsz ioc llen slen) = rest
       \<and> rx_qhead (ioc_build_request rsz ioc llen slen) = rx_qhead ioc @ [r]
       \<and> tx_qhead (ioc_build_request rsz ioc llen slen) = tx_qhead ioc
       \<and> link_len (pool (ioc_build_request rsz ioc llen slen) ! r) = llen
       \<and> srv_len (pool (ioc_build_request rsz ioc llen slen) ! r) = slen
       \<and> (\<forall>i<nat llen. buf (pool (ioc_build_request rsz ioc llen slen) ! r) ! i =
            ring_buf (ring ioc) ! unat ((head (ring ioc) + of_nat i) AND (of_nat rsz - 1)))
       \<and> (\<forall>i\<ge>nat llen. buf (pool (ioc_build_request rsz ioc llen slen) ! r) ! i =
            buf (pool ioc ! r) ! i)
       \<and> length (buf (pool (ioc_build_request rsz ioc llen slen) ! r)) =
            length (buf (pool ioc ! r))
       \<and> req_id (pool (ioc_build_request rsz ioc llen slen) ! r) = req_id (pool ioc ! r)
       \<and> rtype (pool (ioc_build_request rsz ioc llen slen) ! r) = rtype (pool ioc ! r)
       \<and> (\<forall>q. q \<noteq> r \<longrightarrow> pool (ioc_build_request rsz ioc llen slen) ! q = pool ioc ! q))"
proof (intro conjI allI impI)
  assume "free_qhead ioc = []"
  then show "ioc_build_request rsz ioc llen slen =
      ioc\<lparr>trace := trace ioc @ [Lock free_mtx, Unlock free_mtx, Wprintf queue_full_rx]\<rparr>"
    by (simp add: ioc_build_request_def cbc_request_dequeue_def emit_def SIMPLEQ_EMPTY_def)
next
  fix r rest
  assume a: "free_qhead ioc = r # rest \<and> r < length (pool ioc)
      \<and> nat llen \<le> length (buf (pool ioc ! r))"
  define rq where "rq = (pool ioc ! r)\<lparr>buf := copy_link rsz (ring ioc) (nat llen) (buf (pool ioc ! r)),
      srv_len := slen, link_len := llen\<rparr>"
  have eq: "ioc_build_request rsz ioc llen slen =
      ioc\<lparr>free_qhead := rest, rx_qhead := rx_qhead ioc @ [r], pool := (pool ioc)[r := rq],
          trace := trace ioc @ [Lock free_mtx, Unlock free_mtx, Lock rx_mtx, Signal rx_cond,
            Unlock rx_mtx]\<rparr>"
    using a
    by (simp add: ioc_build_request_def cbc_request_dequeue_def cbc_request_enqueue_def
        emit_def SIMPLEQ_EMPTY_def SIMPLEQ_FIRST_def SIMPLEQ_REMOVE_HEAD_def
        SIMPLEQ_INSERT_TAIL_def qhead_get_def qhead_set_def Let_def rq_def)
  show "free_qhead (ioc_build_request rsz ioc llen slen) = rest"
    and "rx_qhead (ioc_build_request rsz ioc llen slen) = rx_qhead ioc @ [r]"
    and "tx_qhead (ioc_build_request rsz ioc llen slen) = tx_qhead ioc"
    by (simp_all add: eq)
  show "link_len (pool (ioc_build_request rsz ioc llen slen) ! r) = llen"
    and "srv_len (pool (ioc_build_request rsz ioc llen slen) ! r) = slen"
    and "req_id (pool (ioc_build_request rsz ioc llen slen) ! r) = req_id (pool ioc ! r)"
    and "rtype (pool (ioc_build_request rsz ioc llen slen) ! r) = rtype (pool ioc ! r)"
    and "length (buf (pool (ioc_build_request rsz ioc llen slen) ! r)) =
            length (buf (pool ioc ! r))"
    using a by (simp_all add: eq rq_def length_copy_link)
  show "buf (pool (ioc_build_request rsz ioc llen slen) ! r) ! i =
      ring_buf (ring ioc) ! unat ((head (ring ioc) + of_nat i) AND (of_nat rsz - 1))"
    if "i < nat llen" for i
    using a that copy_link_copied [of "nat llen" "buf (pool ioc ! r)" i rsz "ring ioc"]
    by (simp add: eq rq_def ring_pos_def)
  show "buf (pool (ioc_build_request rsz ioc llen slen) ! r) ! i = buf (pool ioc ! r) ! i"
    if "nat llen \<le> i" for i
    using a that by (simp add: eq rq_def copy_link_kept)
  show "pool (ioc_build_request rsz ioc llen slen) ! q = pool ioc ! q" if "q \<noteq> r" for q
    using that by (simp add: eq)
qed

theorem ioc_build_request_spec_witness:
  "free_qhead sample_dev = [2, 3] \<and> 2 < length (pool sample_dev)
   \<and> nat 4 \<le> length (buf (pool sample_dev ! 2))
   \<and> free_qhead (ioc_build_request 8 sample_dev 4 2) = [3]
   \<and> rx_qhead (ioc_build_request 8 sample_dev 4 2) = [0, 2]
   \<and> link_len (pool (ioc_build_request 8 sample_dev 4 2) ! 2) = 4
   \<and> srv_len (pool (ioc_build_request 8 sample_dev 4 2) ! 2) = 2
   \<and> buf (pool (ioc_build_request 8 sample_dev 4 2) ! 2) ! 0 = 16
   \<and> buf (pool (ioc_build_request 8 sample_dev 4 2) ! 2) ! 2 = 10
   \<and> ioc_build_request 8 (sample_dev\<lparr>free_qhead := []\<rparr>) 4 2 =
       sample_dev\<lparr>free_qhead := [],
         trace := [Lock free_mtx, Unlock free_mtx, Wprintf queue_full_rx]\<rparr>"
proof -
  have pre: "free_qhead sample_dev = [2, 3] \<and> 2 < length (pool sample_dev)
      \<and> nat 4 \<le> length (buf (pool sample_dev ! 2))"
    by (simp add: sample_dev_def zero_request_def)
  note full = ioc_build_request_spec [of sample_dev 8 4 2, THEN conjunct2, rule_format, OF pre]
  have b0: "buf (pool (ioc_build_request 8 sample_dev 4 2) ! 2) ! 0 = 16"
    using full by (simp add: sample_dev_def)
  have "buf (pool (ioc_build_request 8 sample_dev 4 2) ! 2) ! 2 =
      ring_buf (ring sample_dev) ! unat ((head (ring sample_dev) + of_nat 2) AND (of_nat 8 - 1))"
    using full by simp
  then have b2: "buf (pool (ioc_build_request 8 sample_dev 4 2) ! 2) ! 2 = 10"
    by (simp add: sample_dev_def)
  have e: "ioc_build_request 8 (sample_dev\<lparr>free_qhead := []\<rparr>) 4 2 =
       sample_dev\<lparr>free_qhead := [],
         trace := [Lock free_mtx, Unlock free_mtx, Wprintf queue_full_rx]\<rparr>"
    using ioc_build_request_spec [of "sample_dev\<lparr>free_qhead := []\<rparr>" 8 4 2]
    by (simp add: sample_dev_def)
  show ?thesis
    using pre full b0 b2 e by (simp add: sample_dev_def)
qed

subsection \<open>C4: \<open>ioc_process_tx\<close>\<close>

text \<open>
  C4: when the free queue is empty, \<open>ioc_process_tx\<close> prints its warning, returns \<open>-1\<close>
  and changes no queue. Otherwise it takes the request \<open>r\<close> at the head of the free
  queue and reads from the channel. If the read returns a count \<open>\<le> 0\<close>, \<open>r\<close> goes
  back to the tail of the free queue and the rx and tx queues stay as they were. If the
  count is positive, \<open>r\<close> gets \<open>srv_len = count\<close>, \<open>link_len = 0\<close>, the request type
  \<open>CBC_REQ_T_PROT\<close> and the channel id, holds the bytes read from offset
  \<^verbatim>\<open>CBC_SRV_POS\<close> on, and is appended to the tx queue.
\<close>

theorem ioc_process_tx_spec:
  "(free_qhead ioc = [] \<longrightarrow>
      ioc_process_tx srv_pos max_srv tbl rd ioc i =
        (- 1, ioc\<lparr>trace := trace ioc @ [Lock free_mtx, Unlock free_mtx, Wprintf queue_full_tx]\<rparr>))
   \<and> (\<forall>r rest. free_qhead ioc = r # rest \<and> r < length (pool ioc)
         \<and> srv_pos + max_srv \<le> length (buf (pool ioc ! r)) \<longrightarrow>
       (fst (ioc_ch_recv tbl rd i False max_srv) \<le> 0 \<longrightarrow>
          fst (ioc_process_tx srv_pos max_srv tbl rd ioc i) = - 1
          \<and> free_qhead (snd (ioc_process_tx srv_pos max_srv tbl rd ioc i)) = rest @ [r]
          \<and> rx_qhead (snd (ioc_process_tx srv_pos max_srv tbl rd ioc i)) = rx_qhead ioc
          \<and> tx_qhead (snd (ioc_process_tx srv_pos max_srv tbl rd ioc i)) = tx_qhead ioc)
       \<and> (0 < fst (ioc_ch_recv tbl rd i False max_srv) \<longrightarrow>
          fst (ioc_process_tx srv_pos max_srv tbl rd ioc i) = 0
          \<and> free_qhead (snd (ioc_process_tx srv_pos max_srv tbl rd ioc i)) = rest
          \<and> rx_qhead (snd (ioc_process_tx srv_pos max_srv tbl rd ioc i)) = rx_qhead ioc
          \<and> tx_qhead (snd (ioc_process_tx srv_pos max_srv tbl rd ioc i)) = tx_qhead ioc @ [r]
          \<and> srv_len (pool (snd (ioc_process_tx srv_pos max_srv tbl rd ioc i)) ! r) =
               fst (ioc_ch_recv tbl rd i False max_srv)
          \<and> link_len (pool (snd (ioc_process_tx srv_pos max_srv tbl rd ioc i)) ! r) = 0
          \<and> rtype (pool (snd (ioc_process_tx srv_pos max_srv tbl rd ioc i)) ! r) = CBC_REQ_T_PROT
          \<and> req_id (pool (snd (ioc_process_tx srv_pos max_srv tbl rd ioc i)) ! r) = i
          \<and> take (nat (fst (ioc_ch_recv tbl rd i False max_srv)))
               (drop srv_pos (buf (pool (snd (ioc_process_tx srv_pos max_srv tbl rd ioc i)) ! r))) =
               snd (ioc_ch_recv tbl rd i False max_srv)
          \<and> (\<forall>q. q \<noteq> r \<longrightarrow>
               pool (snd (ioc_process_tx srv_pos max_srv tbl rd ioc i)) ! q = pool ioc ! q)))"
proof (intro conjI allI impI)
  assume "free_qhead ioc = []"
  then show "ioc_process_tx srv_pos max_srv tbl rd ioc i =
      (- 1, ioc\<lparr>trace := trace ioc @ [Lock free_mtx, Unlock free_mtx, Wprintf queue_full_tx]\<rparr>)"
    by (simp add: ioc_process_tx_def cbc_request_dequeue_def emit_def SIMPLEQ_EMPTY_def)
next
  fix r rest
  assume a: "free_qhead ioc = r # rest \<and> r < length (pool ioc)
      \<and> srv_pos + max_srv \<le> length (buf (pool ioc ! r))"
  obtain cnt bs where recv: "ioc_ch_recv tbl rd i False max_srv = (cnt, bs)"
    by (cases "ioc_ch_recv tbl rd i False max_srv")
  have len: "length bs \<le> max_srv" and cnt: "0 < cnt \<Longrightarrow> nat cnt = length bs"
    using recv by (auto simp: ioc_ch_recv_def split: if_splits read_reply.splits)
  define rq1 where "rq1 = (pool ioc ! r)\<lparr>buf := store_bytes (buf (pool ioc ! r)) srv_pos bs\<rparr>"
  have deq: "cbc_request_dequeue ioc CBC_QUEUE_T_FREE =
      (Some r, ioc\<lparr>free_qhead := rest, trace := trace ioc @ [Lock free_mtx, Unlock free_mtx]\<rparr>)"
    using a
    by (simp add: cbc_request_dequeue_def emit_def SIMPLEQ_EMPTY_def SIMPLEQ_FIRST_def
        SIMPLEQ_REMOVE_HEAD_def)
  have bad: "ioc_process_tx srv_pos max_srv tbl rd ioc i =
      (- 1, ioc\<lparr>free_qhead := rest @ [r], pool := (pool ioc)[r := rq1],
          trace := trace ioc @ [Lock free_mtx, Unlock free_mtx, Lock free_mtx, Unlock free_mtx]\<rparr>)"
    if "cnt \<le> 0"
    using that a
    by (simp add: ioc_process_tx_def deq recv cbc_request_enqueue_def emit_def
        SIMPLEQ_INSERT_TAIL_def qhead_get_def qhead_set_def Let_def rq1_def)
  have good: "ioc_process_tx srv_pos max_srv tbl rd ioc i =
      (0, ioc\<lparr>free_qhead := rest, tx_qhead := tx_qhead ioc @ [r],
          pool := (pool ioc)[r := rq1\<lparr>srv_len := cnt, link_len := 0, rtype := CBC_REQ_T_PROT,
            req_id := i\<rparr>],
          trace := trace ioc @ [Lock free_mtx, Unlock free_mtx, Lock tx_mtx, Signal tx_cond,
            Unlock tx_mtx]\<rparr>)"
    if "0 < cnt"
    using that a
    by (simp add: ioc_process_tx_def deq recv cbc_request_enqueue_def emit_def
        SIMPLEQ_INSERT_TAIL_def qhead_get_def qhead_set_def Let_def rq1_def)
  {
    assume "fst (ioc_ch_recv tbl rd i False max_srv) \<le> 0"
    then have c: "cnt \<le> 0" by (simp add: recv)
    show "fst (ioc_process_tx srv_pos max_srv tbl rd ioc i) = - 1"
      and "free_qhead (snd (ioc_process_tx srv_pos max_srv tbl rd ioc i)) = rest @ [r]"
      and "rx_qhead (snd (ioc_process_tx srv_pos max_srv tbl rd ioc i)) = rx_qhead ioc"
      and "tx_qhead (snd (ioc_process_tx srv_pos max_srv tbl rd ioc i)) = tx_qhead ioc"
      by (simp_all add: bad [OF c])
  }
  {
    assume "0 < fst (ioc_ch_recv tbl rd i False max_srv)"
    then have c: "0 < cnt" by (simp add: recv)
    show "fst (ioc_process_tx srv_pos max_srv tbl rd ioc i) = 0"
      and "free_qhead (snd (ioc_process_tx srv_pos max_srv tbl rd ioc i)) = rest"
      and "rx_qhead (snd (ioc_process_tx srv_pos max_srv tbl rd ioc i)) = rx_qhead ioc"
      and "tx_qhead (snd (ioc_process_tx srv_pos max_srv tbl rd ioc i)) = tx_qhead ioc @ [r]"
      by (simp_all add: good [OF c])
    show "srv_len (pool (snd (ioc_process_tx srv_pos max_srv tbl rd ioc i)) ! r) =
        fst (ioc_ch_recv tbl rd i False max_srv)"
      and "link_len (pool (snd (ioc_process_tx srv_pos max_srv tbl rd ioc i)) ! r) = 0"
      and "rtype (pool (snd (ioc_process_tx srv_pos max_srv tbl rd ioc i)) ! r) = CBC_REQ_T_PROT"
      and "req_id (pool (snd (ioc_process_tx srv_pos max_srv tbl rd ioc i)) ! r) = i"
      using a by (simp_all add: good [OF c] recv)
    show "take (nat (fst (ioc_ch_recv tbl rd i False max_srv)))
        (drop srv_pos (buf (pool (snd (ioc_process_tx srv_pos max_srv tbl rd ioc i)) ! r))) =
        snd (ioc_ch_recv tbl rd i False max_srv)"
      using a len cnt [OF c]
      by (simp add: good [OF c] recv rq1_def store_bytes_def)
    show "pool (snd (ioc_process_tx srv_pos max_srv tbl rd ioc i)) ! q = pool ioc ! q"
      if "q \<noteq> r" for q
      using that by (simp add: good [OF c])
  }
qed

theorem ioc_process_tx_spec_witness:
  "free_qhead sample_dev = [2, 3] \<and> 2 < length (pool sample_dev)
   \<and> 2 + 4 \<le> length (buf (pool sample_dev ! 2))
   \<and> 0 < fst (ioc_ch_recv sample_tbl (RData [9, 8, 7]) 1 False 4)
   \<and> fst (ioc_ch_recv sample_tbl (RErr EIO) 1 False 4) \<le> 0
   \<and> fst (ioc_process_tx 2 4 sample_tbl (RData [9, 8, 7]) sample_dev 1) = 0
   \<and> tx_qhead (snd (ioc_process_tx 2 4 sample_tbl (RData [9, 8, 7]) sample_dev 1)) = [1, 2]
   \<and> srv_len (pool (snd (ioc_process_tx 2 4 sample_tbl (RData [9, 8, 7]) sample_dev 1)) ! 2) = 3
   \<and> req_id (pool (snd (ioc_process_tx 2 4 sample_tbl (RData [9, 8, 7]) sample_dev 1)) ! 2) = 1
   \<and> fst (ioc_process_tx 2 4 sample_tbl (RErr EIO) sample_dev 1) = - 1
   \<and> free_qhead (snd (ioc_process_tx 2 4 sample_tbl (RErr EIO) sample_dev 1)) = [3, 2]
   \<and> tx_qhead (snd (ioc_process_tx 2 4 sample_tbl (RErr EIO) sample_dev 1)) = [1]
   \<and> fst (ioc_process_tx 2 4 sample_tbl (RData [9]) (sample_dev\<lparr>free_qhead := []\<rparr>) 1) = - 1"
proof -
  have pre: "free_qhead sample_dev = [2, 3] \<and> 2 < length (pool sample_dev)
      \<and> 2 + 4 \<le> length (buf (pool sample_dev ! 2))"
    by (simp add: sample_dev_def zero_request_def)
  have r1: "fst (ioc_ch_recv sample_tbl (RData [9, 8, 7]) 1 False 4) = 3"
    and r2: "fst (ioc_ch_recv sample_tbl (RErr EIO) 1 False 4) = - 1"
    by (simp_all add: ioc_ch_recv_def sample_tbl_def)
  have g: "0 < fst (ioc_ch_recv sample_tbl (RData [9, 8, 7]) 1 False 4)"
    and b: "fst (ioc_ch_recv sample_tbl (RErr EIO) 1 False 4) \<le> 0"
    unfolding r1 r2 by simp_all
  note ok = ioc_process_tx_spec [of sample_dev 2 4 sample_tbl "RData [9, 8, 7]" 1,
      THEN conjunct2, rule_format, OF pre, THEN conjunct2, rule_format, OF g]
  note ko = ioc_process_tx_spec [of sample_dev 2 4 sample_tbl "RErr EIO" 1,
      THEN conjunct2, rule_format, OF pre, THEN conjunct1, rule_format, OF b]
  have e: "fst (ioc_process_tx 2 4 sample_tbl (RData [9]) (sample_dev\<lparr>free_qhead := []\<rparr>) 1) = - 1"
    using ioc_process_tx_spec [of "sample_dev\<lparr>free_qhead := []\<rparr>" 2 4 sample_tbl "RData [9]" 1]
    by (simp add: sample_dev_def)
  show ?thesis
    using pre g b ok ko e unfolding r1 by (simp add: sample_dev_def)
qed

subsection \<open>C6: routing by the rx and tx threads\<close>

text \<open>
  C6: when the rx queue is \<open>r # rest\<close> and \<open>closing\<close> is not set, a round of the rx
  thread takes \<open>r\<close>, runs the handler on the packet with \<open>qtype\<close> reset to
  \<open>CBC_QUEUE_T_FREE\<close>, and then puts \<open>r\<close> at the head of the tx queue if the handler
  left \<open>qtype = CBC_QUEUE_T_TX\<close>, and at the tail of the free queue for every other
  value, \<open>CBC_QUEUE_T_RX\<close> included. The tx thread does the same with rx and tx
  exchanged.
\<close>

theorem worker_routing:
  "(\<forall>r rest pk rq. rx_qhead ioc = r # rest \<and> \<not> closing ioc
       \<and> ioc_dev_rx (packet\<lparr>pkt_req := Some r, qtype := CBC_QUEUE_T_FREE\<rparr>) (pool ioc ! r) = (pk, rq) \<longrightarrow>
     ioc_rx_thread_round ioc_dev_rx packet ioc =
       Some (pk,
         if qtype pk = CBC_QUEUE_T_TX
         then ioc\<lparr>rx_qhead := rest, pool := (pool ioc)[r := rq],
                  tx_qhead := r # tx_qhead ioc,
                  trace := trace ioc @ [Lock rx_mtx, Unlock rx_mtx,
                    Lock tx_mtx, Signal tx_cond, Unlock tx_mtx]\<rparr>
         else ioc\<lparr>rx_qhead := rest, pool := (pool ioc)[r := rq],
                  free_qhead := free_qhead ioc @ [r],
                  trace := trace ioc @ [Lock rx_mtx, Unlock rx_mtx,
                    Lock free_mtx, Unlock free_mtx]\<rparr>))
   \<and> (\<forall>r rest pk rq. tx_qhead ioc = r # rest \<and> \<not> closing ioc
       \<and> ioc_dev_tx (packet\<lparr>pkt_req := Some r, qtype := CBC_QUEUE_T_FREE\<rparr>) (pool ioc ! r) = (pk, rq) \<longrightarrow>
     ioc_tx_thread_round ioc_dev_tx packet ioc =
       Some (pk,
         if qtype pk = CBC_QUEUE_T_RX
         then ioc\<lparr>tx_qhead := rest, pool := (pool ioc)[r := rq],
                  rx_qhead := r # rx_qhead ioc,
                  trace := trace ioc @ [Lock tx_mtx, Unlock tx_mtx,
                    Lock rx_mtx, Signal rx_cond, Unlock rx_mtx]\<rparr>
         else ioc\<lparr>tx_qhead := rest, pool := (pool ioc)[r := rq],
                  free_qhead := free_qhead ioc @ [r],
                  trace := trace ioc @ [Lock tx_mtx, Unlock tx_mtx,
                    Lock free_mtx, Unlock free_mtx]\<rparr>))"
  by (simp add: ioc_rx_thread_round_def ioc_tx_thread_round_def rx_take_def tx_take_def
      rx_route_def tx_route_def cbc_request_enqueue_def emit_def qhead_get_def qhead_set_def
      SIMPLEQ_EMPTY_def SIMPLEQ_FIRST_def SIMPLEQ_REMOVE_HEAD_def SIMPLEQ_INSERT_HEAD_def
      SIMPLEQ_INSERT_TAIL_def Let_def)

theorem worker_routing_witness:
  "rx_qhead sample_dev = [0] \<and> tx_qhead sample_dev = [1] \<and> \<not> closing sample_dev
   \<and> tx_qhead (snd (the (ioc_rx_thread_round (forward_to CBC_QUEUE_T_TX) zero_pkt sample_dev)))
       = [0, 1]
   \<and> free_qhead (snd (the (ioc_rx_thread_round (forward_to CBC_QUEUE_T_RX) zero_pkt sample_dev)))
       = [2, 3, 0]
   \<and> tx_qhead (snd (the (ioc_rx_thread_round (forward_to CBC_QUEUE_T_RX) zero_pkt sample_dev)))
       = [1]
   \<and> rx_qhead (snd (the (ioc_tx_thread_round (forward_to CBC_QUEUE_T_RX) zero_pkt sample_dev)))
       = [1, 0]
   \<and> free_qhead (snd (the (ioc_tx_thread_round (forward_to CBC_QUEUE_T_TX) zero_pkt sample_dev)))
       = [2, 3, 1]"
  using worker_routing [of sample_dev "forward_to CBC_QUEUE_T_TX" zero_pkt "forward_to CBC_QUEUE_T_TX"]
    worker_routing [of sample_dev "forward_to CBC_QUEUE_T_RX" zero_pkt "forward_to CBC_QUEUE_T_RX"]
  by (simp add: sample_dev_def forward_to_def)

subsection \<open>C2: every request is in exactly one place\<close>

lemma free_fill_upt: "free_fill n [] = [0..<n]"
  by (induction n) (simp_all add: SIMPLEQ_INSERT_TAIL_def)

lemma ioc_init_queues:
  assumes "ioc_init N bsz rsz env g tbl = (Some d, tbl', cs)"
  shows "free_qhead d = [0..<N] \<and> rx_qhead d = [] \<and> tx_qhead d = []"
  using assms
  by (auto simp: ioc_init_def Let_def free_fill_upt split: if_splits)

lemma enqueue_places:
  "mset (free_qhead (cbc_request_enqueue ioc (Some r) q h))
   + mset (rx_qhead (cbc_request_enqueue ioc (Some r) q h))
   + mset (tx_qhead (cbc_request_enqueue ioc (Some r) q h))
   = mset (free_qhead ioc) + mset (rx_qhead ioc) + mset (tx_qhead ioc) + {#r#}"
  by (cases q)
    (simp_all add: cbc_request_enqueue_def emit_def qhead_get_def qhead_set_def
      SIMPLEQ_INSERT_HEAD_def SIMPLEQ_INSERT_TAIL_def Let_def)

lemma dequeue_places:
  "mset (free_qhead (snd (cbc_request_dequeue ioc CBC_QUEUE_T_FREE)))
   + (case fst (cbc_request_dequeue ioc CBC_QUEUE_T_FREE) of None \<Rightarrow> {#} | Some r \<Rightarrow> {#r#})
   = mset (free_qhead ioc)
   \<and> rx_qhead (snd (cbc_request_dequeue ioc CBC_QUEUE_T_FREE)) = rx_qhead ioc
   \<and> tx_qhead (snd (cbc_request_dequeue ioc CBC_QUEUE_T_FREE)) = tx_qhead ioc"
  by (cases "free_qhead ioc")
    (simp_all add: cbc_request_dequeue_def emit_def SIMPLEQ_EMPTY_def SIMPLEQ_FIRST_def
      SIMPLEQ_REMOVE_HEAD_def Let_def)

lemma rx_take_places:
  "rx_take ioc = Some (r, d) \<Longrightarrow>
   mset (rx_qhead d) + {#r#} = mset (rx_qhead ioc)
   \<and> free_qhead d = free_qhead ioc \<and> tx_qhead d = tx_qhead ioc"
  by (cases "rx_qhead ioc")
    (auto simp: rx_take_def emit_def SIMPLEQ_EMPTY_def SIMPLEQ_FIRST_def
      SIMPLEQ_REMOVE_HEAD_def Let_def split: if_splits)

lemma tx_take_places:
  "tx_take ioc = Some (r, d) \<Longrightarrow>
   mset (tx_qhead d) + {#r#} = mset (tx_qhead ioc)
   \<and> free_qhead d = free_qhead ioc \<and> rx_qhead d = rx_qhead ioc"
  by (cases "tx_qhead ioc")
    (auto simp: tx_take_def emit_def SIMPLEQ_EMPTY_def SIMPLEQ_FIRST_def
      SIMPLEQ_REMOVE_HEAD_def Let_def split: if_splits)

text \<open>No step creates, loses or copies a request.\<close>

lemma ioc_step_places: "mset (all_places (ioc_step a s)) = mset (all_places s)"
proof (cases a)
  case Core_dequeue
  then show ?thesis
    using dequeue_places [of "dev s"]
    by (auto simp: all_places_def in_flight_def ac_simps split: option.splits)
next
  case (Core_enqueue q)
  show ?thesis
  proof (cases "core_req s")
    case None
    with Core_enqueue show ?thesis
      by (simp add: all_places_def in_flight_def cbc_request_enqueue_def)
  next
    case (Some r)
    with Core_enqueue show ?thesis
      using enqueue_places [of "dev s" r q False]
      by (simp add: all_places_def in_flight_def ac_simps)
  qed
next
  case Rx_take
  then show ?thesis
    using rx_take_places [of "dev s"]
    by (auto simp: all_places_def in_flight_def ac_simps split: option.splits)
next
  case (Rx_route q)
  then show ?thesis
    using enqueue_places [of "dev s"]
    by (auto simp: all_places_def in_flight_def rx_route_def ac_simps split: option.splits)
next
  case Tx_take
  then show ?thesis
    using tx_take_places [of "dev s"]
    by (auto simp: all_places_def in_flight_def ac_simps split: option.splits)
next
  case (Tx_route q)
  then show ?thesis
    using enqueue_places [of "dev s"]
    by (auto simp: all_places_def in_flight_def tx_route_def ac_simps split: option.splits)
next
  case (Req_write r rq)
  then show ?thesis
    by (auto simp: all_places_def in_flight_def)
next
  case Kill
  then show ?thesis
    by (auto simp: all_places_def in_flight_def)
qed

lemma ioc_run_places: "mset (all_places (ioc_run sched s)) = mset (all_places s)"
  by (induction sched arbitrary: s) (simp_all add: ioc_step_places)

text \<open>
  C2: let \<open>ioc_init\<close> succeed with a pool of \<open>N\<close> requests, and let the three threads
  then take any sequence of steps. In the state \<open>s\<close> reached, the requests on the free,
  rx and tx queues together with the requests in flight (held by a thread between taking
  it off a queue and putting it on the next one: the rx worker, the tx worker, and the
  core thread while it fills a request) are, as a multiset, exactly the pool
  \<open>0, \<dots>, N - 1\<close>; no request occurs twice in these places, and every request of the
  pool occurs in them.
\<close>

theorem request_conservation:
  assumes "ioc_init N bsz rsz env g tbl = (Some d, tbl', cs)"
    and "s = ioc_run sched (threads_idle d)"
  shows "mset (free_qhead (dev s)) + mset (rx_qhead (dev s)) + mset (tx_qhead (dev s))
           + mset (in_flight s) = mset [0..<N]
         \<and> distinct (free_qhead (dev s) @ rx_qhead (dev s) @ tx_qhead (dev s) @ in_flight s)
         \<and> set (free_qhead (dev s) @ rx_qhead (dev s) @ tx_qhead (dev s) @ in_flight s)
             = {0..<N}"
proof -
  have "all_places (threads_idle d) = [0..<N]"
    using ioc_init_queues [OF assms(1)]
    by (simp add: all_places_def in_flight_def threads_idle_def)
  then have m: "mset (all_places s) = mset [0..<N]"
    by (simp add: assms(2) ioc_run_places)
  then have "distinct (all_places s)"
    using mset_eq_imp_distinct_iff [of "all_places s" "[0..<N]"] by simp
  moreover have "set (all_places s) = {0..<N}"
    using mset_eq_setD [OF m] by simp
  ultimately show ?thesis
    using m by (simp add: all_places_def ac_simps)
qed

theorem request_conservation_witness:
  "ioc_init 3 8 8 good_env boot1 ioc_ch_tbl =
     (Some booted_dev, fst (snd (ioc_init 3 8 8 good_env boot1 ioc_ch_tbl)),
      snd (snd (ioc_init 3 8 8 good_env boot1 ioc_ch_tbl)))
   \<and> free_qhead (dev (ioc_run sample_schedule (threads_idle booted_dev))) = [2]
   \<and> rx_qhead (dev (ioc_run sample_schedule (threads_idle booted_dev))) = []
   \<and> tx_qhead (dev (ioc_run sample_schedule (threads_idle booted_dev))) = []
   \<and> in_flight (ioc_run sample_schedule (threads_idle booted_dev)) = [1, 0]
   \<and> mset (free_qhead (dev (ioc_run sample_schedule (threads_idle booted_dev))))
       + mset (rx_qhead (dev (ioc_run sample_schedule (threads_idle booted_dev))))
       + mset (tx_qhead (dev (ioc_run sample_schedule (threads_idle booted_dev))))
       + mset (in_flight (ioc_run sample_schedule (threads_idle booted_dev))) = mset [0..<3]"
proof -
  have f: "free_fill 3 [] = [0, 1, 2]"
    by (simp add: numeral_3_eq_3 SIMPLEQ_INSERT_TAIL_def)
  have "fst (ioc_init 3 8 8 good_env boot1 ioc_ch_tbl) = Some booted_dev"
    by (simp add: ioc_init_def ioc_ch_init_def ioc_ch_tbl_def ch_open_def
        ioc_open_native_ch_def ioc_open_virtual_uart_def good_env_def boot1_def
        booted_dev_def f Let_def)
  then have i: "ioc_init 3 8 8 good_env boot1 ioc_ch_tbl =
     (Some booted_dev, fst (snd (ioc_init 3 8 8 good_env boot1 ioc_ch_tbl)),
      snd (snd (ioc_init 3 8 8 good_env boot1 ioc_ch_tbl)))"
    by (metis prod.collapse)
  have q: "free_qhead (dev (ioc_run sample_schedule (threads_idle booted_dev))) = [2]"
    "rx_qhead (dev (ioc_run sample_schedule (threads_idle booted_dev))) = []"
    "tx_qhead (dev (ioc_run sample_schedule (threads_idle booted_dev))) = []"
    "in_flight (ioc_run sample_schedule (threads_idle booted_dev)) = [1, 0]"
    by (simp_all add: sample_schedule_def threads_idle_def booted_dev_def in_flight_def
        cbc_request_dequeue_def cbc_request_enqueue_def rx_take_def tx_take_def rx_route_def
        emit_def qhead_get_def qhead_set_def SIMPLEQ_EMPTY_def SIMPLEQ_FIRST_def
        SIMPLEQ_REMOVE_HEAD_def SIMPLEQ_INSERT_HEAD_def SIMPLEQ_INSERT_TAIL_def Let_def)
  from request_conservation [OF i refl, of sample_schedule] i q show ?thesis
    by blast
qed

subsection \<open>C7: which failed opens make \<open>ioc_ch_init\<close> fail\<close>

text \<open>
  C7: on the channel table of the source, \<open>ioc_ch_init\<close> returns \<open>-1\<close> exactly when
  the open of the lifecycle channel or the open of the virtual UART fails, and then
  \<open>ioc_init\<close> returns a null handle. When both
  succeed it returns 0, and every enabled channel has been given the result of its own
  open as its fd: a negative, invalid fd if that open failed, which does not stop the
  loop or change the result. The channels that are off keep \<^verbatim>\<open>IOC_INIT_FD\<close>.
\<close>

theorem ioc_ch_init_critical_channels:
  "(fst (ioc_ch_init env path ioc_ch_tbl) = - 1 \<longleftrightarrow>
      fst (ioc_open_native_ch env IOC_NP_LF) < 0 \<or> fst (ioc_open_virtual_uart env path) < 0)
   \<and> (\<not> fst (ioc_open_native_ch env IOC_NP_LF) < 0
       \<and> \<not> fst (ioc_open_virtual_uart env path) < 0 \<longrightarrow>
      fst (ioc_ch_init env path ioc_ch_tbl) = 0
      \<and> fst (snd (ioc_ch_init env path ioc_ch_tbl)) =
          map (\<lambda>chl. if stat chl = IOC_CH_OFF then chl
                     else if name chl = IOC_DP_NONE
                     then chl\<lparr>fd := fst (ioc_open_virtual_uart env path)\<rparr>
                     else chl\<lparr>fd := fst (ioc_open_native_ch env (name chl))\<rparr>) ioc_ch_tbl)
   \<and> (fst (ioc_ch_init env (virtual_uart_path g) ioc_ch_tbl) = - 1 \<longrightarrow>
      fst (ioc_init max_requests bsz rsz env g ioc_ch_tbl) = None)"
proof -
  have "fst (ioc_init max_requests bsz rsz env g ioc_ch_tbl) = None"
    if "fst (ioc_ch_init env (virtual_uart_path g) ioc_ch_tbl) = - 1"
    using that by (simp add: ioc_init_def Let_def)
  then show ?thesis
    by (simp add: ioc_ch_init_def ioc_ch_tbl_def ch_open_def)
qed

theorem ioc_ch_init_critical_channels_witness:
  "\<not> fst (ioc_open_native_ch raw3_fails IOC_NP_LF) < 0
   \<and> \<not> fst (ioc_open_virtual_uart raw3_fails ''/tmp/vuart'') < 0
   \<and> fst (ioc_open_native_ch raw3_fails IOC_NP_RAW3) < 0
   \<and> fst (ioc_ch_init raw3_fails ''/tmp/vuart'' ioc_ch_tbl) = 0
   \<and> fd (fst (snd (ioc_ch_init raw3_fails ''/tmp/vuart'' ioc_ch_tbl)) ! IOC_NATIVE_RAW3) = - 1
   \<and> fd (fst (snd (ioc_ch_init raw3_fails ''/tmp/vuart'' ioc_ch_tbl)) ! IOC_NATIVE_RAW4) = 10
   \<and> fd (fst (snd (ioc_ch_init raw3_fails ''/tmp/vuart'' ioc_ch_tbl)) ! IOC_VIRTUAL_UART) = 4
   \<and> fst (ioc_open_native_ch lf_fails IOC_NP_LF) < 0
   \<and> fst (ioc_ch_init lf_fails ''/tmp/vuart'' ioc_ch_tbl) = - 1
   \<and> fst (ioc_init 3 8 8 lf_fails boot1 ioc_ch_tbl) = None"
proof -
  have o: "\<not> fst (ioc_open_native_ch raw3_fails IOC_NP_LF) < 0
      \<and> \<not> fst (ioc_open_virtual_uart raw3_fails ''/tmp/vuart'') < 0"
    "fst (ioc_open_native_ch raw3_fails IOC_NP_RAW3) = - 1"
    "fst (ioc_open_native_ch raw3_fails IOC_NP_RAW4) = 10"
    "fst (ioc_open_virtual_uart raw3_fails ''/tmp/vuart'') = 4"
    "fst (ioc_open_native_ch lf_fails IOC_NP_LF) < 0"
    by (simp_all add: ioc_open_native_ch_def ioc_open_virtual_uart_def raw3_fails_def
        lf_fails_def good_env_def Let_def)
  note ok = ioc_ch_init_critical_channels [of raw3_fails "''/tmp/vuart''",
      THEN conjunct2, THEN conjunct1, rule_format, OF o(1)]
  note ko = ioc_ch_init_critical_channels [of lf_fails "''/tmp/vuart''",
      THEN conjunct1, THEN iffD2, OF disjI1, OF o(5)]
  have "fst (ioc_ch_init lf_fails (virtual_uart_path boot1) ioc_ch_tbl) = - 1"
    using ko by (simp add: boot1_def)
  note nul = ioc_ch_init_critical_channels [where env = lf_fails and g = boot1
      and max_requests = 3 and bsz = 8 and rsz = 8,
      THEN conjunct2, THEN conjunct2, rule_format, OF this]
  show ?thesis
    using o ok ko nul by (simp add: ioc_ch_tbl_def)
qed

subsection \<open>C9: a boot reason of 0\<close>

text \<open>
  C9: when \<open>ioc_boot_reason\<close> is 0, \<open>ioc_init\<close> returns a null handle, and the only
  call it has made is the \<^verbatim>\<open>stat\<close> of the platform check: nothing is allocated, no
  channel is opened, no symlink is made, no thread is created, and the channel table is
  untouched.
\<close>

theorem ioc_init_boot_reason_zero:
  assumes "ioc_boot_reason g = 0"
  shows "ioc_init max_requests bsz rsz env g tbl = (None, tbl, [Call_stat])"
  using assms by (simp add: ioc_init_def Let_def)

theorem ioc_init_boot_reason_zero_witness:
  "ioc_parse (decimal 0) globals0 ''/tmp/vuart,0'' =
     Inr (0, \<lparr>virtual_uart_path = ''/tmp/vuart'', ioc_boot_reason = 0\<rparr>)
   \<and> ioc_init 3 8 8 good_env \<lparr>virtual_uart_path = ''/tmp/vuart'', ioc_boot_reason = 0\<rparr> ioc_ch_tbl =
     (None, ioc_ch_tbl, [Call_stat])
   \<and> fst (ioc_init 3 8 8 good_env boot1 ioc_ch_tbl) = Some booted_dev"
proof -
  have p: "ioc_parse (decimal 0) globals0 ''/tmp/vuart,0'' =
     Inr (0, \<lparr>virtual_uart_path = ''/tmp/vuart'', ioc_boot_reason = 0\<rparr>)"
    by (simp add: ioc_parse_def strtok_def param_after_strtok_def globals0_def)
  have f: "free_fill 3 [] = [0, 1, 2]"
    by (simp add: numeral_3_eq_3 SIMPLEQ_INSERT_TAIL_def)
  have b: "fst (ioc_init 3 8 8 good_env boot1 ioc_ch_tbl) = Some booted_dev"
    by (simp add: ioc_init_def ioc_ch_init_def ioc_ch_tbl_def ch_open_def
        ioc_open_native_ch_def ioc_open_virtual_uart_def good_env_def boot1_def
        booted_dev_def f Let_def)
  have "ioc_boot_reason \<lparr>virtual_uart_path = ''/tmp/vuart'', ioc_boot_reason = 0\<rparr> = 0"
    by simp
  from ioc_init_boot_reason_zero [OF this, of 3 8 8 good_env ioc_ch_tbl] p b
  show ?thesis by simp
qed

subsection \<open>C10: \<open>ioc_parse\<close> on an option string with a single token\<close>

text \<open>
  C10 says that \<open>ioc_parse\<close> never passes a null pointer to \<^verbatim>\<open>strtoul\<close>. The source
  tests the result of the first \<^verbatim>\<open>strtok\<close> and then passes the result of the second
  one unchecked. On a path without a comma, and on \<open>'',0''\<close>, the first call finds the
  only token, the second returns a null pointer, and that pointer goes to
  \<^verbatim>\<open>strtoul\<close>, whatever \<^verbatim>\<open>strtoul\<close> computes on proper strings and whatever the
  globals were.
\<close>

theorem ioc_parse_single_token_null:
  "ioc_parse strtoul g ''/tmp/vuart'' = Inl Strtoul_null_pointer
   \<and> ioc_parse strtoul g '',0'' = Inl Strtoul_null_pointer"
  by (simp add: ioc_parse_def strtok_def)

text \<open>
  With two tokens, or with none, the function returns 0: the second token is the boot
  reason, and without a first token the boot reason is left as it was.
\<close>

lemma ioc_parse_two_tokens:
  "ioc_parse (decimal 0) globals0 ''/tmp/vuart,1'' =
     Inr (0, \<lparr>virtual_uart_path = ''/tmp/vuart'', ioc_boot_reason = 1\<rparr>)
   \<and> ioc_parse strtoul g '''' = Inr (0, g\<lparr>virtual_uart_path := ''''\<rparr>)"
  by (simp add: ioc_parse_def strtok_def param_after_strtok_def globals0_def)

end
